theory Spec2Isabelle
  imports Main "HOL-Library.Sublist"
begin

section \<open>Data model\<close>

text \<open>
  The deployment tool is a Node.js command-line program. Its functions talk to the
  local shell (\<open>child_process.execSync\<close>), to the operator (\<open>inquirer\<close> prompts), to
  the profile store (\<open>servers.yml\<close>) and to one remote host through the \<open>node-ssh\<close>
  library. The embedding keeps the control flow of every function and makes each of
  these interactions an event of a trace; what the outside answers is read from a
  \<open>world\<close>, a record of oracles that see the whole history so far.

  Texts shown to the operator are Chinese in the source; they are represented by
  constructors named after their meaning. Output that only decorates (banners, the
  echo of a command and of its output, the summary before a confirmation) is not an
  event. A string is the sequence of bytes of its UTF-8 encoding.
\<close>

subsection \<open>Server profiles (the entries of \<open>servers.yml\<close>)\<close>

record file_entry =
  local :: string
  remote :: "string option"

text \<open>
  A profile is a JavaScript object loaded from YAML: a field that may be missing is an
  \<open>option\<close> (\<open>None\<close> is \<open>undefined\<close>). \<open>deployPath\<close> and \<open>backupPath\<close> are only ever
  interpolated into command strings.
\<close>

record ServerProfile =
  host :: string
  port :: "nat option"
  username :: string
  deployPath :: string
  backupPath :: string
  environment :: "string option"
  uploadType :: "string option"
  localPath :: "string option"
  files :: "file_entry list option"
  buildCommand :: "string option"
  installCommand :: "string option"
  buildCommandRemote :: "string option"
  restartCommand :: "string option"
  verifyCommand :: "string option"
  url :: "string option"

text \<open>JavaScript truthiness of an optional string: \<open>undefined\<close> and \<open>''\<close> are falsy.\<close>

fun truthy :: "string option \<Rightarrow> bool" where
  "truthy None = False"
| "truthy (Some s) = (s \<noteq> [])"

text \<open>The value of a truthy optional string (\<open>''\<close> stands for a falsy one, never used).\<close>

fun str :: "string option \<Rightarrow> string" where
  "str None = []"
| "str (Some s) = s"

subsection \<open>Errors\<close>

text \<open>
  Every \<open>throw\<close> of the source is a value of \<open>error\<close>. \<open>Lib m\<close> is an exception raised
  by a library or by the outside (message \<open>m\<close>); a constructor that takes an \<open>error\<close>
  is a \<open>new Error(`...: ${error.message}`)\<close> wrapping the one caught.
\<close>

datatype error =
    Lib string
  | TypeError string
  | InvalidEnvironment string
  | NotGitRepository
  | GetBranchFailed
  | GetStatusFailed
  | DeployCancelled
  | ConfigFileMissing
  | ServerConfigNotFound string
  | ConfigNotFound string
  | SSHConnectFailed error
  | SSHNotConnected
  | CommandFailed string
  | RemoteExecFailed error
  | UploadFileFailed error
  | UploadFilesFailed error
  | UploadDirectoryFailed error
  | SystemInfoFailed error

subsection \<open>Events\<close>

text \<open>The stages that own a progress spinner, and what a spinner reports.\<close>

datatype stage =
    St_validate | St_git | St_uncommitted | St_build | St_connect | St_backup | St_upload
  | St_install | St_restart | St_verify | St_status

datatype spinner = Start | Succeed | Fail | Warn

text \<open>
  Entries into the methods of \<open>SSHConnection\<close>: the trace records when a method is
  invoked, apart from what it then does (\<open>M_new\<close> is the constructor, with its argument).
\<close>

datatype ssh_method =
    M_new ServerProfile
  | M_connect
  | M_exec string
  | M_uploadFile string string
  | M_uploadFiles "file_entry list option" string
  | M_uploadDirectory "string option" string
  | M_disconnect

text \<open>Operations on the underlying \<open>NodeSSH\<close> object: the only remote operations.\<close>

datatype node_ssh =
    Connect string nat
  | ExecCommand string string
  | PutFile string string
  | PutFiles "(string \<times> string) list"
  | PutDirectory "string option" string
  | RequestExec string
  | Dispose

datatype prompt = Ask_continue_uncommitted | Ask_confirm_deploy

datatype message =
    Msg_dry_run_mode
  | Msg_simulation_done
  | Msg_deploy_done string string "string option"
  | Msg_verify_result string
  | Msg_verify_error error
  | Msg_deploy_failed error
  | Msg_server_info string string
  | Msg_deploy_info string "string option" "string option"
  | Msg_services "(string \<times> string) list"
  | Msg_status_url string
  | Msg_status_failed error
  | Msg_no_log_file
  | Msg_following_logs
  | Msg_logs string
  | Msg_logs_failed error
  | Msg_config_hint
  | Msg_config_failed error

datatype event =
    Call ssh_method
  | NodeSSH node_ssh
  | ExecSync string
  | Prompt prompt
  | FsPathExists
  | FsReadFile
  | Spinner spinner stage
  | Simulated spinner stage
  | Sleep nat
  | Console message
  | ProcessExit int

subsection \<open>The outside world\<close>

text \<open>The deployment information of the status report (\<open>None\<close>: the property is not set).\<close>

record deploy_info =
  lastDeploy :: "string option"
  currentVersion :: "string option"

text \<open>What \<open>NodeSSH.execCommand\<close> answers: a rejected promise, or exit code, stdout, stderr.\<close>

datatype exec_reply =
    Rejected string
  | Completed "int option" string string

text \<open>
  What reading and parsing \<open>servers.yml\<close> gives: \<open>readFile\<close> or \<open>yaml.load\<close> throws
  (the parser rejects a repeated name), or the document has no \<open>servers\<close> mapping, or
  it has one: its entries in file order, \<open>None\<close> for an entry that is \<open>null\<close>. An empty
  document is read as \<open>{ servers: {} }\<close>, that is \<open>Servers []\<close>.
\<close>

datatype store_file =
    Unreadable string
  | NoServers
  | Servers "(string \<times> ServerProfile option) list"

text \<open>
  Every oracle reads the history of events so far, so the same request may be answered
  differently at different times. \<open>Some m\<close> from an oracle of type \<open>string option\<close> is a
  rejection with message \<open>m\<close>. \<open>servers_file\<close> is \<open>None\<close> when the file does not exist.
  \<open>rejection_order\<close> says which of several rejected promises of a \<open>Promise.all\<close> was
  rejected first in time. The last three fields are the pure readings of \<open>JSON.parse\<close>
  that the status report uses: for the first two \<open>None\<close> means that the parse, or the
  property access after it, throws; \<open>parse_pm2_list\<close> gives the name and status of the
  processes that \<open>getServiceStatus\<close> has pushed when the parse and the loop over the
  processes end, normally or by an exception (none when the parse itself throws).
\<close>

record world =
  execSync_reply :: "event list \<Rightarrow> string \<Rightarrow> string + string"
  prompt_reply :: "event list \<Rightarrow> prompt \<Rightarrow> bool"
  servers_file :: "event list \<Rightarrow> store_file option"
  now_iso :: "event list \<Rightarrow> string"
  connect_reply :: "event list \<Rightarrow> string option"
  execCommand_reply :: "event list \<Rightarrow> string \<Rightarrow> exec_reply"
  putFile_reply :: "event list \<Rightarrow> string option"
  putFiles_reply :: "event list \<Rightarrow> string option"
  putDirectory_reply :: "event list \<Rightarrow> string option"
  requestExec_reply :: "event list \<Rightarrow> string option"
  rejection_order :: "event list \<Rightarrow> nat"
  parse_deploy_info :: "string \<Rightarrow> deploy_info option"
  parse_package_version :: "string \<Rightarrow> string option option"
  parse_pm2_list :: "string \<Rightarrow> (string \<times> string) list"

section \<open>Computations\<close>

text \<open>
  An \<open>SSHConnection\<close> object holds its profile and the \<open>connected\<close> flag. Each of
  \<open>executeDeployment\<close>, \<open>showStatus\<close> and \<open>showLogs\<close> has one local variable \<open>ssh\<close>;
  its content (\<open>None\<close>: still \<open>undefined\<close>) is the mutable state of a computation.

  A computation reads the history and the \<open>ssh\<close> variable, and returns its result
  (\<open>Inl\<close>: the error thrown), the new content of \<open>ssh\<close> and the events it added.
\<close>

record SSHConnection =
  config :: ServerProfile
  connected :: bool

type_synonym 'a io =
  "event list \<Rightarrow> SSHConnection option \<Rightarrow> (error + 'a) \<times> SSHConnection option \<times> event list"

abbreviation result :: "(error + 'a) \<times> SSHConnection option \<times> event list \<Rightarrow> error + 'a" where
  "result x \<equiv> fst x"

abbreviation session :: "'r \<times> SSHConnection option \<times> event list \<Rightarrow> SSHConnection option" where
  "session x \<equiv> fst (snd x)"

abbreviation events :: "'r \<times> SSHConnection option \<times> event list \<Rightarrow> event list" where
  "events x \<equiv> snd (snd x)"

definition io_return :: "'a \<Rightarrow> 'a io" where
  "io_return x h v = (Inr x, v, [])"

definition io_throw :: "error \<Rightarrow> 'a io" where
  "io_throw e h v = (Inl e, v, [])"

definition io_bind :: "'a io \<Rightarrow> ('a \<Rightarrow> 'b io) \<Rightarrow> 'b io" where
  "io_bind m f h v =
     (case m h v of
        (Inl e, v', evs) \<Rightarrow> (Inl e, v', evs)
      | (Inr x, v', evs) \<Rightarrow>
          (case f x (h @ evs) v' of (r, v'', evs') \<Rightarrow> (r, v'', evs @ evs')))"

definition io_seq :: "'a io \<Rightarrow> 'b io \<Rightarrow> 'b io" where
  "io_seq m n = io_bind m (\<lambda>_. n)"

text \<open>\<open>try { m } catch (error) { handler error }\<close>\<close>

definition try_catch :: "'a io \<Rightarrow> (error \<Rightarrow> 'a io) \<Rightarrow> 'a io" where
  "try_catch m handler h v =
     (case m h v of
        (Inr x, v', evs) \<Rightarrow> (Inr x, v', evs)
      | (Inl e, v', evs) \<Rightarrow>
          (case handler e (h @ evs) v' of (r, v'', evs') \<Rightarrow> (r, v'', evs @ evs')))"

text \<open>
  \<open>try { m } finally { fin }\<close>: \<open>fin\<close> runs on every exit of \<open>m\<close>; the outcome is that
  of \<open>m\<close> unless \<open>fin\<close> itself throws.
\<close>

definition try_finally :: "'a io \<Rightarrow> unit io \<Rightarrow> 'a io" where
  "try_finally m fin h v =
     (case m h v of
        (r, v', evs) \<Rightarrow>
          (case fin (h @ evs) v' of
             (Inl e, v'', evs') \<Rightarrow> (Inl e, v'', evs @ evs')
           | (Inr _, v'', evs') \<Rightarrow> (r, v'', evs @ evs')))"

definition emit :: "event \<Rightarrow> unit io" where
  "emit e h v = (Inr (), v, [e])"

text \<open>An interaction with the outside: the event is recorded, the oracle answers.\<close>

definition perform :: "event \<Rightarrow> (event list \<Rightarrow> 'r) \<Rightarrow> 'r io" where
  "perform e oracle h v = (Inr (oracle h), v, [e])"

text \<open>Reading the outside without an event (the clock).\<close>

definition io_ask :: "(event list \<Rightarrow> 'r) \<Rightarrow> 'r io" where
  "io_ask oracle h v = (Inr (oracle h), v, [])"

text \<open>\<open>if (b) { await m; }\<close>\<close>

definition io_when :: "bool \<Rightarrow> 'a io \<Rightarrow> unit io" where
  "io_when b m = (if b then io_seq m (io_return ()) else io_return ())"

text \<open>An oracle of type \<open>string option\<close> rejects with \<open>Some m\<close>.\<close>

definition settle :: "string option \<Rightarrow> unit io" where
  "settle reply = (case reply of Some m \<Rightarrow> io_throw (Lib m) | None \<Rightarrow> io_return ())"

definition get_ssh :: "SSHConnection option io" where
  "get_ssh h v = (Inr v, v, [])"

definition set_ssh :: "SSHConnection option \<Rightarrow> unit io" where
  "set_ssh v' h v = (Inr (), v', [])"

text \<open>\<open>this.connected = b\<close> on the object that \<open>ssh\<close> refers to.\<close>

definition set_connected :: "bool \<Rightarrow> unit io" where
  "set_connected b h v = (Inr (), map_option (\<lambda>c. c\<lparr>connected := b\<rparr>) v, [])"

text \<open>
  \<open>ssh.m(...)\<close>: calling a method through an \<open>undefined\<close> variable is a \<open>TypeError\<close>;
  otherwise the entry is recorded and the body runs with \<open>this\<close>.
\<close>

definition method_call :: "ssh_method \<Rightarrow> (SSHConnection \<Rightarrow> 'a io) \<Rightarrow> 'a io" where
  "method_call m body h v =
     (case v of
        None \<Rightarrow> (Inl (TypeError ''ssh is undefined''), v, [])
      | Some this \<Rightarrow> io_seq (emit (Call m)) (body this) h v)"

section \<open>\<open>lib/ssh.js\<close>: class \<open>SSHConnection\<close>\<close>

text \<open>\<open>ssh = new SSHConnection(config)\<close>\<close>

definition new_SSHConnection :: "ServerProfile \<Rightarrow> unit io" where
  "new_SSHConnection cfg =
     io_seq (emit (Call (M_new cfg))) (set_ssh (Some \<lparr>config = cfg, connected = False\<rparr>))"

text \<open>\<open>this.config.port || 22\<close>\<close>

definition port_or_22 :: "ServerProfile \<Rightarrow> nat" where
  "port_or_22 cfg = (case port cfg of None \<Rightarrow> 22 | Some p \<Rightarrow> if p = 0 then 22 else p)"

definition connect :: "world \<Rightarrow> unit io" where
  "connect w = method_call M_connect (\<lambda>this.
     io_seq (emit (Spinner Start St_connect))
       (try_catch
          (io_seq
             (io_bind (perform (NodeSSH (Connect (host (config this)) (port_or_22 (config this))))
                         (connect_reply w)) settle)
             (io_seq (set_connected True) (emit (Spinner Succeed St_connect))))
          (\<lambda>error. io_seq (emit (Spinner Fail St_connect)) (io_throw (SSHConnectFailed error)))))"

text \<open>
  \<open>exec(command)\<close>: no caller passes \<open>options\<close>, so the working directory is
  \<open>this.config.deployPath\<close>. An exit code other than \<open>0\<close> (also \<open>null\<close>) is an error.
\<close>

definition exec :: "world \<Rightarrow> string \<Rightarrow> string io" where
  "exec w command = method_call (M_exec command) (\<lambda>this.
     if \<not> connected this then io_throw SSHNotConnected
     else
       try_catch
         (io_bind (perform (NodeSSH (ExecCommand command (deployPath (config this))))
                     (\<lambda>h. execCommand_reply w h command))
            (\<lambda>reply. case reply of
               Rejected m \<Rightarrow> io_throw (Lib m)
             | Completed code out err \<Rightarrow>
                 if code \<noteq> Some 0 then io_throw (CommandFailed err) else io_return out))
         (\<lambda>error. io_throw (RemoteExecFailed error)))"

definition uploadFile :: "world \<Rightarrow> string \<Rightarrow> string \<Rightarrow> unit io" where
  "uploadFile w localPath' remotePath = method_call (M_uploadFile localPath' remotePath) (\<lambda>this.
     if \<not> connected this then io_throw SSHNotConnected
     else
       try_catch
         (io_bind (perform (NodeSSH (PutFile localPath' remotePath)) (putFile_reply w)) settle)
         (\<lambda>error. io_throw (UploadFileFailed error)))"

text \<open>\<open>`${remoteDir}/${file.remote || file.local}`\<close>\<close>

definition transfer :: "string \<Rightarrow> file_entry \<Rightarrow> string \<times> string" where
  "transfer remoteDir file =
     (local file, remoteDir @ ''/'' @ (if truthy (remote file) then str (remote file) else local file))"

text \<open>\<open>files.map\<close> on an \<open>undefined\<close> list throws before the \<open>try\<close>.\<close>

definition uploadFiles :: "world \<Rightarrow> file_entry list option \<Rightarrow> string \<Rightarrow> unit io" where
  "uploadFiles w files' remoteDir = method_call (M_uploadFiles files' remoteDir) (\<lambda>this.
     if \<not> connected this then io_throw SSHNotConnected
     else
       (case files' of
          None \<Rightarrow> io_throw (TypeError ''files is undefined'')
        | Some fs \<Rightarrow>
            try_catch
              (io_bind (perform (NodeSSH (PutFiles (map (transfer remoteDir) fs))) (putFiles_reply w))
                 settle)
              (\<lambda>error. io_throw (UploadFilesFailed error))))"

text \<open>
  \<open>putDirectory\<close> is called recursive, with concurrency 10 and a filter that skips
  dot files, \<open>node_modules\<close> and \<open>.git\<close>; the library does the walk.
\<close>

definition uploadDirectory :: "world \<Rightarrow> string option \<Rightarrow> string \<Rightarrow> unit io" where
  "uploadDirectory w localDir remoteDir = method_call (M_uploadDirectory localDir remoteDir) (\<lambda>this.
     if \<not> connected this then io_throw SSHNotConnected
     else
       try_catch
         (io_bind (perform (NodeSSH (PutDirectory localDir remoteDir)) (putDirectory_reply w)) settle)
         (\<lambda>error. io_throw (UploadDirectoryFailed error)))"

definition disconnect :: "unit io" where
  "disconnect = method_call M_disconnect (\<lambda>this.
     if connected this then io_seq (emit (NodeSSH Dispose)) (set_connected False)
     else io_return ())"

text \<open>
  JavaScript's \<open>trim\<close> removes white space and line terminators from both ends of a
  string: the code points U+0009 to U+000D, U+0020, U+00A0, U+1680, U+2000 to U+200A,
  U+2028, U+2029, U+202F, U+205F, U+3000 and U+FEFF, listed here in their UTF-8
  encoding.
\<close>

definition white_space :: "string list" where
  "white_space =
     [[CHR 0x09], [CHR 0x0A], [CHR 0x0B], [CHR 0x0C], [CHR 0x0D], [CHR 0x20],
      [CHR 0xC2, CHR 0xA0], [CHR 0xE1, CHR 0x9A, CHR 0x80]]
     @ map (\<lambda>c. [CHR 0xE2, CHR 0x80, c])
         [CHR 0x80, CHR 0x81, CHR 0x82, CHR 0x83, CHR 0x84, CHR 0x85, CHR 0x86, CHR 0x87,
          CHR 0x88, CHR 0x89, CHR 0x8A, CHR 0xA8, CHR 0xA9, CHR 0xAF]
     @ [[CHR 0xE2, CHR 0x81, CHR 0x9F], [CHR 0xE3, CHR 0x80, CHR 0x80],
        [CHR 0xEF, CHR 0xBB, CHR 0xBF]]"

function strip_leading :: "string list \<Rightarrow> string \<Rightarrow> string" where
  "strip_leading spaces s =
     (case find (\<lambda>ws. ws \<noteq> [] \<and> prefix ws s) spaces of
        None \<Rightarrow> s
      | Some ws \<Rightarrow> strip_leading spaces (drop (length ws) s))"
  by pat_completeness auto
termination
  by (relation "measure (\<lambda>(spaces, s). length s)") (auto simp: find_Some_iff prefix_def)

declare strip_leading.simps [simp del]

definition trim :: "string \<Rightarrow> string" where
  "trim s = rev (strip_leading (map rev white_space) (rev (strip_leading white_space s)))"

definition dq :: string where
  "dq = [CHR 0x22]"

text \<open>
  \<open>fileExists\<close> never throws: every error of \<open>exec\<close> collapses to \<open>false\<close>. The
  command is \<open>test -f "<path>" && echo "exists" || echo "not_exists"\<close>.
\<close>

definition fileExists :: "world \<Rightarrow> string \<Rightarrow> bool io" where
  "fileExists w remotePath =
     try_catch
       (io_bind
          (exec w (''test -f '' @ dq @ remotePath @ dq @ '' && echo '' @ dq @ ''exists'' @ dq
                   @ '' || echo '' @ dq @ ''not_exists'' @ dq))
          (\<lambda>out. io_return (trim out = ''exists'')))
       (\<lambda>error. io_return False)"

text \<open>
  \<open>Promise.all\<close> over calls that have all been started: it rejects with the rejection
  that happened first in time, which is for the world to say (\<open>k\<close>); with no rejection
  it gives the values in the order of the array.
\<close>

fun rejections :: "(error + 'a) list \<Rightarrow> error list" where
  "rejections [] = []"
| "rejections (Inl e # rs) = e # rejections rs"
| "rejections (Inr x # rs) = rejections rs"

fun fulfilments :: "(error + 'a) list \<Rightarrow> 'a list" where
  "fulfilments [] = []"
| "fulfilments (Inl e # rs) = fulfilments rs"
| "fulfilments (Inr x # rs) = x # fulfilments rs"

definition promise_all :: "nat \<Rightarrow> (error + 'a) list \<Rightarrow> error + 'a list" where
  "promise_all k rs =
     (if rejections rs = [] then Inr (fulfilments rs)
      else Inl (rejections rs ! (k mod length (rejections rs))))"

definition started :: "'a io \<Rightarrow> (error + 'a) io" where
  "started m = try_catch (io_bind m (\<lambda>x. io_return (Inr x))) (\<lambda>error. io_return (Inl error))"

text \<open>The result is \<open>(hostname, os, memory, disk)\<close>.\<close>

definition getSystemInfo :: "world \<Rightarrow> (string \<times> string \<times> string \<times> string) io" where
  "getSystemInfo w =
     try_catch
       (io_bind (started (exec w ''hostname'')) (\<lambda>a.
        io_bind (started (exec w ''uname -a'')) (\<lambda>b.
        io_bind (started (exec w ''free -h'')) (\<lambda>c.
        io_bind (started (exec w ''df -h'')) (\<lambda>d.
        io_bind (io_ask (rejection_order w)) (\<lambda>k.
          case promise_all k [a, b, c, d] of
            Inl e \<Rightarrow> io_throw e
          | Inr outs \<Rightarrow>
              io_return (trim (outs ! 0), trim (outs ! 1), trim (outs ! 2), trim (outs ! 3))))))))
       (\<lambda>error. io_throw (SystemInfoFailed error))"

section \<open>\<open>lib/utils.js\<close>: local checks\<close>

definition execSync :: "world \<Rightarrow> string \<Rightarrow> string io" where
  "execSync w command =
     io_bind (perform (ExecSync command) (\<lambda>h. execSync_reply w h command))
       (\<lambda>reply. case reply of Inl m \<Rightarrow> io_throw (Lib m) | Inr out \<Rightarrow> io_return out)"

definition validEnvs :: "string list" where
  "validEnvs = [''development'', ''staging'', ''production'']"

definition validateEnvironment :: "world \<Rightarrow> string \<Rightarrow> bool io" where
  "validateEnvironment w env =
     (if env \<notin> set validEnvs then io_throw (InvalidEnvironment env)
      else
        io_seq
          (try_catch (execSync w ''git rev-parse --git-dir'') (\<lambda>error. io_throw NotGitRepository))
          (io_return True))"

definition getCurrentBranch :: "world \<Rightarrow> string io" where
  "getCurrentBranch w =
     try_catch
       (io_bind (execSync w ''git branch --show-current'') (\<lambda>out. io_return (trim out)))
       (\<lambda>error. io_throw GetBranchFailed)"

text \<open>
  \<open>getGitStatus\<close> runs three commands; of its result only \<open>hasUncommittedChanges\<close> is
  ever read, and that is what the model returns.
\<close>

definition upstream :: string where
  "upstream = ''@'' @ ''{u}''"

definition getGitStatus :: "world \<Rightarrow> bool io" where
  "getGitStatus w =
     try_catch
       (io_bind (execSync w ''git status --porcelain'') (\<lambda>status.
        io_seq (execSync w (''git rev-list --count '' @ upstream @ ''..HEAD 2>/dev/null || echo ''
                            @ dq @ ''0'' @ dq))
       (io_seq (execSync w (''git rev-list --count HEAD..'' @ upstream @ '' 2>/dev/null || echo ''
                            @ dq @ ''0'' @ dq))
          (io_return (trim status \<noteq> [])))))
       (\<lambda>error. io_throw GetStatusFailed)"

section \<open>\<open>lib/config.js\<close>: the profile store\<close>

text \<open>\<open>String.prototype.includes\<close>: the argument occurs as a contiguous substring.\<close>

fun includes_string :: "string \<Rightarrow> string \<Rightarrow> bool" where
  "includes_string [] sub = (sub = [])"
| "includes_string (c # cs) sub = (prefix sub (c # cs) \<or> includes_string cs sub)"

text \<open>
  \<open>Object.keys\<close> of an object whose properties were created in the order of the list:
  the keys that are array indices (canonical decimal numerals below \<open>2^32 - 1\<close>) come
  first, in ascending numeric order; the other keys follow in creation order.
\<close>

definition digits :: "char list" where
  "digits = ''0123456789''"

definition decimal :: "string \<Rightarrow> nat" where
  "decimal s = foldl (\<lambda>n c. 10 * n + (of_char c - 48)) 0 s"

definition is_array_index :: "string \<Rightarrow> bool" where
  "is_array_index s =
     (s \<noteq> [] \<and> list_all (\<lambda>c. c \<in> set digits) s \<and> (s = ''0'' \<or> hd s \<noteq> CHR ''0'')
      \<and> decimal s < 4294967295)"

definition Object_keys :: "(string \<times> 'a) list \<Rightarrow> string list" where
  "Object_keys obj =
     sort_key decimal (filter is_array_index (map fst obj))
     @ filter (\<lambda>k. \<not> is_array_index k) (map fst obj)"

text \<open>
  The search \<open>Object.keys(servers.servers).find(name => name.includes(env) ||
  servers.servers[name].environment === env)\<close>: reading \<open>environment\<close> of an entry
  that is \<open>null\<close> is a \<open>TypeError\<close>, which ends the search.
\<close>

fun find_server :: "(string \<times> ServerProfile option) list \<Rightarrow> string \<Rightarrow> string list \<Rightarrow> error + string option" where
  "find_server servers env [] = Inr None"
| "find_server servers env (name # names) =
     (if includes_string name env then Inr (Some name)
      else
        case map_of servers name of
          Some (Some p) \<Rightarrow>
            if environment p = Some env then Inr (Some name) else find_server servers env names
        | _ \<Rightarrow> Inl (TypeError ''Cannot read properties of null''))"

text \<open>
  \<open>loadConfig\<close> returns \<open>servers.servers[serverName]\<close>, which is \<open>None\<close> for a \<open>null\<close>
  entry; \<open>!serverName\<close> also holds of the empty name.
\<close>

definition loadConfig :: "world \<Rightarrow> string \<Rightarrow> ServerProfile option io" where
  "loadConfig w env =
     io_bind (perform FsPathExists (\<lambda>h. servers_file w h \<noteq> None)) (\<lambda>present.
       if \<not> present then io_throw ConfigFileMissing
       else
         io_bind (perform FsReadFile (servers_file w)) (\<lambda>content.
           case content of
             None \<Rightarrow> io_throw (Lib ''ENOENT'')
           | Some parsed \<Rightarrow>
               (case parsed of
                  Unreadable m \<Rightarrow> io_throw (Lib m)
                | NoServers \<Rightarrow> io_throw (TypeError ''Cannot convert undefined or null to object'')
                | Servers servers \<Rightarrow>
                    (case find_server servers env (Object_keys servers) of
                       Inl e \<Rightarrow> io_throw e
                     | Inr found \<Rightarrow>
                         (case found of
                            None \<Rightarrow> io_throw (ServerConfigNotFound env)
                          | Some serverName \<Rightarrow>
                              if serverName = [] then io_throw (ServerConfigNotFound env)
                              else
                                io_return (case map_of servers serverName of
                                             None \<Rightarrow> None
                                           | Some entry \<Rightarrow> entry))))))"

section \<open>\<open>lib/deploy.js\<close>: the deployment pipeline\<close>

definition checkGitStatus :: "world \<Rightarrow> string \<Rightarrow> bool \<Rightarrow> unit io" where
  "checkGitStatus w targetBranch force =
     io_seq (emit (Spinner Start St_git))
       (try_catch
          (io_bind (getCurrentBranch w) (\<lambda>currentBranch.
           io_bind (getGitStatus w) (\<lambda>hasUncommittedChanges.
           io_seq
             (if hasUncommittedChanges \<and> \<not> force then
                io_seq (emit (Spinner Fail St_uncommitted))
                  (io_bind (perform (Prompt Ask_continue_uncommitted)
                              (\<lambda>h. prompt_reply w h Ask_continue_uncommitted))
                     (\<lambda>shouldContinue.
                        if \<not> shouldContinue then io_throw DeployCancelled else io_return ()))
              else io_return ())
          (io_seq (io_when (currentBranch \<noteq> targetBranch) (execSync w (''git checkout '' @ targetBranch)))
          (io_seq (execSync w (''git pull origin '' @ targetBranch))
             (emit (Spinner Succeed St_git)))))))
          (\<lambda>error. io_seq (emit (Spinner Fail St_git)) (io_throw error)))"

definition confirmDeployment :: "world \<Rightarrow> unit io" where
  "confirmDeployment w =
     io_bind (perform (Prompt Ask_confirm_deploy) (\<lambda>h. prompt_reply w h Ask_confirm_deploy))
       (\<lambda>confirmed. if \<not> confirmed then io_throw DeployCancelled else io_return ())"

text \<open>
  The seven steps of the rehearsal: build the project, connect to the server, back up
  the current version, upload the new version, install dependencies, restart the
  service, verify the deployment. Each waits one second and reports success.
\<close>

definition steps :: "stage list" where
  "steps = [St_build, St_connect, St_backup, St_upload, St_install, St_restart, St_verify]"

fun simulate_steps :: "stage list \<Rightarrow> unit io" where
  "simulate_steps [] = io_return ()"
| "simulate_steps (step # rest) =
     io_seq (emit (Simulated Start step))
    (io_seq (emit (Sleep 1000))
    (io_seq (emit (Simulated Succeed step))
       (simulate_steps rest)))"

definition simulateDeployment :: "unit io" where
  "simulateDeployment = io_seq (simulate_steps steps) (emit (Console Msg_simulation_done))"

definition buildProject :: "world \<Rightarrow> ServerProfile \<Rightarrow> unit io" where
  "buildProject w cfg =
     io_seq (emit (Spinner Start St_build))
       (try_catch
          (io_seq (io_when (truthy (buildCommand cfg)) (execSync w (str (buildCommand cfg))))
             (emit (Spinner Succeed St_build)))
          (\<lambda>error. io_seq (emit (Spinner Fail St_build)) (io_throw error)))"

text \<open>\<open>new Date().toISOString().replace(/[:.]/g, '-')\<close>\<close>

definition timestamp_of :: "string \<Rightarrow> string" where
  "timestamp_of s = map (\<lambda>c. if c = CHR '':'' \<or> c = CHR ''.'' then CHR ''-'' else c) s"

definition backupCurrentVersion :: "world \<Rightarrow> ServerProfile \<Rightarrow> unit io" where
  "backupCurrentVersion w cfg =
     io_seq (emit (Spinner Start St_backup))
       (try_catch
          (io_bind (io_ask (now_iso w)) (\<lambda>now.
           io_seq (exec w (''mkdir -p '' @ backupPath cfg))
          (io_seq (exec w (''cp -r '' @ deployPath cfg @ '' '' @ backupPath cfg @ ''/backup-''
                           @ timestamp_of now))
             (emit (Spinner Succeed St_backup)))))
          (\<lambda>error. io_seq (emit (Spinner Fail St_backup)) (io_throw error)))"

text \<open>The function \<open>uploadFiles\<close> of \<open>deploy.js\<close> (the method of the same name is above).\<close>

definition uploadFiles_deploy :: "world \<Rightarrow> ServerProfile \<Rightarrow> unit io" where
  "uploadFiles_deploy w cfg =
     io_seq (emit (Spinner Start St_upload))
       (try_catch
          (io_seq (exec w (''mkdir -p '' @ deployPath cfg))
          (io_seq
             (if uploadType cfg = Some ''rsync''
              then uploadDirectory w (localPath cfg) (deployPath cfg)
              else uploadFiles w (files cfg) (deployPath cfg))
             (emit (Spinner Succeed St_upload))))
          (\<lambda>error. io_seq (emit (Spinner Fail St_upload)) (io_throw error)))"

definition installAndBuild :: "world \<Rightarrow> ServerProfile \<Rightarrow> unit io" where
  "installAndBuild w cfg =
     io_seq (emit (Spinner Start St_install))
       (try_catch
          (io_seq (exec w (''cd '' @ deployPath cfg))
          (io_seq (io_when (truthy (installCommand cfg))
                     (exec w (''cd '' @ deployPath cfg @ '' && '' @ str (installCommand cfg))))
          (io_seq (io_when (truthy (buildCommandRemote cfg))
                     (exec w (''cd '' @ deployPath cfg @ '' && '' @ str (buildCommandRemote cfg))))
             (emit (Spinner Succeed St_install)))))
          (\<lambda>error. io_seq (emit (Spinner Fail St_install)) (io_throw error)))"

definition restartService :: "world \<Rightarrow> ServerProfile \<Rightarrow> unit io" where
  "restartService w cfg =
     (if \<not> truthy (restartCommand cfg) then io_return ()
      else
        io_seq (emit (Spinner Start St_restart))
          (try_catch
             (io_seq (exec w (str (restartCommand cfg)))
             (io_seq (emit (Sleep 3000))
                (emit (Spinner Succeed St_restart))))
             (\<lambda>error. io_seq (emit (Spinner Fail St_restart)) (io_throw error))))"

definition verifyDeployment :: "world \<Rightarrow> ServerProfile \<Rightarrow> unit io" where
  "verifyDeployment w cfg =
     io_seq (emit (Spinner Start St_verify))
       (try_catch
          (io_seq
             (if truthy (verifyCommand cfg)
              then io_bind (exec w (str (verifyCommand cfg)))
                     (\<lambda>out. emit (Console (Msg_verify_result out)))
              else io_return ())
             (emit (Spinner Succeed St_verify)))
          (\<lambda>error. io_seq (emit (Spinner Warn St_verify)) (emit (Console (Msg_verify_error error)))))"

text \<open>
  \<open>executeDeployment(config, branch, env)\<close> reads neither \<open>branch\<close> nor \<open>env\<close>. Its local
  \<open>let ssh;\<close> starts \<open>undefined\<close>; the \<open>finally\<close> block disconnects when \<open>ssh\<close> is set.
\<close>

definition executeDeployment :: "world \<Rightarrow> ServerProfile \<Rightarrow> unit io" where
  "executeDeployment w cfg =
     io_seq (set_ssh None)
       (try_finally
          (io_seq (buildProject w cfg)
          (io_seq (new_SSHConnection cfg)
          (io_seq (connect w)
          (io_seq (backupCurrentVersion w cfg)
          (io_seq (uploadFiles_deploy w cfg)
          (io_seq (installAndBuild w cfg)
          (io_seq (restartService w cfg)
             (verifyDeployment w cfg))))))))
          (io_bind get_ssh (\<lambda>ssh. if ssh \<noteq> None then disconnect else io_return ())))"

text \<open>
  \<open>deployProject({env, branch = 'main', force = false, dryRun = false})\<close>, with the
  defaults already applied.
\<close>

definition deployProject :: "world \<Rightarrow> string \<Rightarrow> string \<Rightarrow> bool \<Rightarrow> bool \<Rightarrow> unit io" where
  "deployProject w env branch force dryRun =
     io_seq (emit (Spinner Start St_validate))
    (io_seq
       (try_catch
          (io_seq (validateEnvironment w env) (emit (Spinner Succeed St_validate)))
          (\<lambda>error. io_seq (emit (Spinner Fail St_validate)) (io_throw error)))
    (io_bind (loadConfig w env) (\<lambda>loaded.
       case loaded of
         None \<Rightarrow> io_throw (ConfigNotFound env)
       | Some cfg \<Rightarrow>
           io_seq (checkGitStatus w branch force)
          (io_seq (if \<not> force \<and> \<not> dryRun then confirmDeployment w else io_return ())
             (if dryRun then
                io_seq (emit (Console Msg_dry_run_mode)) simulateDeployment
              else
                io_seq (executeDeployment w cfg)
                  (emit (Console (Msg_deploy_done env branch
                                    (if truthy (url cfg) then url cfg else None)))))))))"

section \<open>\<open>lib/utils.js\<close>: status and logs\<close>

text \<open>
  \<open>getDeployInfo\<close> declares \<open>const deployInfo = {}\<close> and then, when the marker file
  exists, evaluates \<open>deployInfo = JSON.parse(content)\<close> inside a \<open>try\<close> whose \<open>catch\<close>
  ignores every error. \<open>JSON.parse\<close> throws on invalid input; on valid input the
  assignment to the \<open>const\<close> binding throws a \<open>TypeError\<close>.
\<close>

definition assign_const :: "'a \<Rightarrow> 'a \<Rightarrow> 'a io" where
  "assign_const current new = io_throw (TypeError ''Assignment to constant variable.'')"

definition getDeployInfo :: "world \<Rightarrow> ServerProfile \<Rightarrow> deploy_info io" where
  "getDeployInfo w cfg =
     try_catch
       (io_bind
          (io_bind (fileExists w (deployPath cfg @ ''/.deploy-info'')) (\<lambda>present.
             if present then
               io_bind (exec w (''cat '' @ deployPath cfg @ ''/.deploy-info'')) (\<lambda>content.
                 try_catch
                   (case parse_deploy_info w content of
                      None \<Rightarrow> io_throw (Lib ''SyntaxError'')
                    | Some parsed \<Rightarrow>
                        assign_const \<lparr>lastDeploy = None, currentVersion = None\<rparr> parsed)
                   (\<lambda>e. io_return \<lparr>lastDeploy = None, currentVersion = None\<rparr>))
             else io_return \<lparr>lastDeploy = None, currentVersion = None\<rparr>))
          (\<lambda>deployInfo.
        io_bind
          (try_catch
             (io_bind (exec w (''stat -c %y '' @ deployPath cfg)) (\<lambda>lastModified.
                io_return (deployInfo\<lparr>lastDeploy := Some (trim lastModified)\<rparr>)))
             (\<lambda>e. io_return deployInfo))
          (\<lambda>deployInfo.
          try_catch
            (io_bind (fileExists w (deployPath cfg @ ''/package.json'')) (\<lambda>present.
               if present then
                 io_bind (exec w (''cat '' @ deployPath cfg @ ''/package.json'')) (\<lambda>packageContent.
                   case parse_package_version w packageContent of
                     None \<Rightarrow> io_throw (Lib ''SyntaxError'')
                   | Some version \<Rightarrow> io_return (deployInfo\<lparr>currentVersion := version\<rparr>))
               else io_return deployInfo))
            (\<lambda>e. io_return deployInfo))))
       (\<lambda>error. io_return \<lparr>lastDeploy = None, currentVersion = None\<rparr>)"

text \<open>
  \<open>getServiceStatus\<close>: every probe is wrapped in its own \<open>try\<close> with an empty \<open>catch\<close>.
  For the process list, \<open>JSON.parse\<close> and the loop that pushes one service for each
  process are in one \<open>try\<close>: what was pushed before an exception stays in the result.
\<close>

definition commonServices :: "string list" where
  "commonServices = [''nginx'', ''apache2'', ''pm2'']"

fun service_probes :: "world \<Rightarrow> string list \<Rightarrow> (string \<times> string) list io" where
  "service_probes w [] = io_return []"
| "service_probes w (serviceName # rest) =
     io_bind
       (try_catch
          (io_bind (exec w (''systemctl is-active '' @ serviceName @ '' 2>/dev/null || echo ''
                            @ dq @ ''inactive'' @ dq))
             (\<lambda>out. io_return (if trim out \<noteq> ''inactive'' then [(serviceName, trim out)] else [])))
          (\<lambda>e. io_return []))
       (\<lambda>found. io_bind (service_probes w rest) (\<lambda>more. io_return (found @ more)))"

definition getServiceStatus :: "world \<Rightarrow> (string \<times> string) list io" where
  "getServiceStatus w =
     io_bind (service_probes w commonServices) (\<lambda>services.
     io_bind
       (try_catch
          (io_bind (exec w (''pm2 jlist 2>/dev/null || echo '' @ dq @ ''[]'' @ dq)) (\<lambda>pm2Status.
             io_return (map (\<lambda>(name, status). (''pm2-'' @ name, status))
                          (parse_pm2_list w pm2Status))))
          (\<lambda>e. io_return []))
       (\<lambda>pm2. io_return (services @ pm2)))"

text \<open>\<open>x || 'unknown'\<close>: a falsy value is shown as unknown (\<open>None\<close>).\<close>

definition shown :: "string option \<Rightarrow> string option" where
  "shown x = (if truthy x then x else None)"

text \<open>
  \<open>showStatus\<close>: the report prints the host name and the system line as received
  (the source shortens the system line to its first three words).
\<close>

definition showStatus :: "world \<Rightarrow> string \<Rightarrow> unit io" where
  "showStatus w env =
     try_catch
       (io_bind (loadConfig w env) (\<lambda>loaded.
          case loaded of
            None \<Rightarrow> io_throw (TypeError ''config is undefined'')
          | Some cfg \<Rightarrow>
              io_seq (new_SSHConnection cfg)
             (io_seq (emit (Spinner Start St_status))
             (io_seq (connect w)
             (io_bind (getSystemInfo w) (\<lambda>systemInfo.
              io_bind (getDeployInfo w cfg) (\<lambda>deployInfo.
              io_bind (getServiceStatus w) (\<lambda>serviceStatus.
              io_seq disconnect
             (io_seq (emit (Spinner Succeed St_status))
             (io_seq (emit (Console (Msg_server_info (fst systemInfo) (fst (snd systemInfo)))))
             (io_seq (emit (Console (Msg_deploy_info (deployPath cfg)
                                       (shown (lastDeploy deployInfo))
                                       (shown (currentVersion deployInfo)))))
             (io_seq (io_when (serviceStatus \<noteq> []) (emit (Console (Msg_services serviceStatus))))
                (io_when (truthy (url cfg)) (emit (Console (Msg_status_url (str (url cfg))))))))))))))))))
       (\<lambda>error. emit (Console (Msg_status_failed error)))"




section \<open>The command-line actions\<close>






definition status_action :: "world \<Rightarrow> string \<Rightarrow> unit io" where
  "status_action w env =
     try_catch
       (showStatus w env)
       (\<lambda>error. emit (Console (Msg_status_failed error)))"






section \<open>Vocabulary of the properties\<close>

text \<open>
  \<open>emits P m\<close>: every event that \<open>m\<close> adds satisfies \<open>P\<close>. \<open>keeps m\<close>: \<open>m\<close> leaves the
  \<open>ssh\<close> variable and its object as they were. \<open>total m\<close>: \<open>m\<close> never throws.
\<close>

definition emits :: "(event \<Rightarrow> bool) \<Rightarrow> 'a io \<Rightarrow> bool" where
  "emits P m = (\<forall>h v. list_all P (events (m h v)))"

definition keeps :: "'a io \<Rightarrow> bool" where
  "keeps m = (\<forall>h v. session (m h v) = v)"

definition total :: "'a io \<Rightarrow> bool" where
  "total m = (\<forall>h v. \<exists>x. result (m h v) = Inr x)"

text \<open>
  The events of the life cycle of a session: construction, connection (attempt and
  report) and release.
\<close>

definition lifecycle :: "event \<Rightarrow> bool" where
  "lifecycle e =
     (case e of
        Call m \<Rightarrow>
          (case m of M_new c \<Rightarrow> True | M_connect \<Rightarrow> True | M_disconnect \<Rightarrow> True
           | _ \<Rightarrow> False)
      | NodeSSH op \<Rightarrow> (case op of Connect a b \<Rightarrow> True | Dispose \<Rightarrow> True | _ \<Rightarrow> False)
      | Spinner s st \<Rightarrow> st = St_connect
      | _ \<Rightarrow> False)"

text \<open>The sub-stages of \<open>executeDeployment\<close> that run inside the session, and its \<open>finally\<close> block.\<close>

definition after_backup :: "world \<Rightarrow> ServerProfile \<Rightarrow> unit io" where
  "after_backup w cfg =
     io_seq (uploadFiles_deploy w cfg)
    (io_seq (installAndBuild w cfg)
    (io_seq (restartService w cfg)
       (verifyDeployment w cfg)))"

definition after_connect :: "world \<Rightarrow> ServerProfile \<Rightarrow> unit io" where
  "after_connect w cfg = io_seq (backupCurrentVersion w cfg) (after_backup w cfg)"

definition release :: "unit io" where
  "release = io_bind get_ssh (\<lambda>ssh. if ssh \<noteq> None then disconnect else io_return ())"

text \<open>The events of constructing the session and connecting, with the report of the outcome.\<close>

definition connect_events :: "ServerProfile \<Rightarrow> spinner \<Rightarrow> event list" where
  "connect_events cfg outcome =
     [Call (M_new cfg), Call M_connect, Spinner Start St_connect,
      NodeSSH (Connect (host cfg) (port_or_22 cfg)), Spinner outcome St_connect]"

text \<open>Upload events: an upload method of the session is entered, or the library transfers.\<close>

definition upload_event :: "event \<Rightarrow> bool" where
  "upload_event e =
     (case e of
        Call m \<Rightarrow>
          (case m of M_uploadFile a b \<Rightarrow> True | M_uploadFiles a b \<Rightarrow> True
           | M_uploadDirectory a b \<Rightarrow> True | _ \<Rightarrow> False)
      | NodeSSH op \<Rightarrow>
          (case op of PutFile a b \<Rightarrow> True | PutFiles a \<Rightarrow> True | PutDirectory a b \<Rightarrow> True
           | _ \<Rightarrow> False)
      | _ \<Rightarrow> False)"

text \<open>A remote command succeeded: it completed with exit status 0.\<close>

definition exec_ok :: "exec_reply \<Rightarrow> bool" where
  "exec_ok reply = (case reply of Rejected m \<Rightarrow> False | Completed code out err \<Rightarrow> code = Some 0)"

text \<open>The error that \<open>exec\<close> throws for a reply that is not a success.\<close>

definition exec_error :: "exec_reply \<Rightarrow> error" where
  "exec_error reply =
     RemoteExecFailed (case reply of Rejected m \<Rightarrow> Lib m | Completed code out err \<Rightarrow> CommandFailed err)"

definition exec_out :: "exec_reply \<Rightarrow> string" where
  "exec_out reply = (case reply of Rejected m \<Rightarrow> [] | Completed code out err \<Rightarrow> out)"

text \<open>
  The two remote commands of the backup stage when it starts after history \<open>h\<close>, and
  whether the world lets both succeed at the moments they are issued.
\<close>

definition backup_mkdir :: "ServerProfile \<Rightarrow> string" where
  "backup_mkdir cfg = ''mkdir -p '' @ backupPath cfg"

definition backup_copy :: "world \<Rightarrow> ServerProfile \<Rightarrow> event list \<Rightarrow> string" where
  "backup_copy w cfg h =
     ''cp -r '' @ deployPath cfg @ '' '' @ backupPath cfg @ ''/backup-''
     @ timestamp_of (now_iso w (h @ [Spinner Start St_backup]))"

definition backup_mkdir_ok :: "world \<Rightarrow> ServerProfile \<Rightarrow> event list \<Rightarrow> bool" where
  "backup_mkdir_ok w cfg h =
     exec_ok (execCommand_reply w (h @ [Spinner Start St_backup, Call (M_exec (backup_mkdir cfg))])
                (backup_mkdir cfg))"

definition backup_copy_ok :: "world \<Rightarrow> ServerProfile \<Rightarrow> event list \<Rightarrow> bool" where
  "backup_copy_ok w cfg h =
     exec_ok (execCommand_reply w
                (h @ [Spinner Start St_backup, Call (M_exec (backup_mkdir cfg)),
                      NodeSSH (ExecCommand (backup_mkdir cfg) (deployPath cfg)),
                      Call (M_exec (backup_copy w cfg h))])
                (backup_copy w cfg h))"

text \<open>The reports of the backup stage.\<close>

definition backup_report :: "event \<Rightarrow> bool" where
  "backup_report e = (case e of Spinner s st \<Rightarrow> st = St_backup | _ \<Rightarrow> False)"

text \<open>
  Local events: the local shell, the prompts, the profile store, and the reports of the
  stages that run before any session exists.
\<close>

definition local_event :: "event \<Rightarrow> bool" where
  "local_event e =
     (case e of
        ExecSync c \<Rightarrow> True
      | Prompt p \<Rightarrow> True
      | FsPathExists \<Rightarrow> True
      | FsReadFile \<Rightarrow> True
      | Spinner s st \<Rightarrow> st = St_validate \<or> st = St_git \<or> st = St_uncommitted
      | _ \<Rightarrow> False)"

text \<open>What the rehearsal reports: start, wait and success for each step, then the summary.\<close>

definition simulation_events :: "event list" where
  "simulation_events =
     concat (map (\<lambda>step. [Simulated Start step, Sleep 1000, Simulated Succeed step]) steps)
     @ [Console Msg_simulation_done]"

text \<open>Session events: a method of the session is entered, or the remote library is used.\<close>

definition session_event :: "event \<Rightarrow> bool" where
  "session_event e = (case e of Call m \<Rightarrow> True | NodeSSH op \<Rightarrow> True | _ \<Rightarrow> False)"

text \<open>
  The remote commands of the install stage, in the order in which it issues them, and
  the outcome of issuing a list of commands one after the other on a connected session
  with working directory \<open>cwd\<close>, after history \<open>h\<close>: the error of the first command
  that fails (\<open>None\<close>: all succeed) and the events up to there.
\<close>

definition install_commands :: "ServerProfile \<Rightarrow> string list" where
  "install_commands cfg =
     [''cd '' @ deployPath cfg]
     @ (if truthy (installCommand cfg)
        then [''cd '' @ deployPath cfg @ '' && '' @ str (installCommand cfg)] else [])
     @ (if truthy (buildCommandRemote cfg)
        then [''cd '' @ deployPath cfg @ '' && '' @ str (buildCommandRemote cfg)] else [])"

fun commands_outcome :: "world \<Rightarrow> string \<Rightarrow> event list \<Rightarrow> string list \<Rightarrow> error option \<times> event list"
  where
  "commands_outcome w cwd h [] = (None, [])"
| "commands_outcome w cwd h (c # cs) =
     (if exec_ok (execCommand_reply w (h @ [Call (M_exec c)]) c) then
        (case commands_outcome w cwd (h @ [Call (M_exec c), NodeSSH (ExecCommand c cwd)]) cs of
           (e, evs) \<Rightarrow> (e, Call (M_exec c) # NodeSSH (ExecCommand c cwd) # evs))
      else
        (Some (exec_error (execCommand_reply w (h @ [Call (M_exec c)]) c)),
         [Call (M_exec c), NodeSSH (ExecCommand c cwd)]))"




text \<open>
  A profile store in which the \<open>servers\<close> mapping is present and every entry is a
  profile.
\<close>

definition profile_store :: "(string \<times> ServerProfile) list \<Rightarrow> store_file" where
  "profile_store profiles = Servers (map (\<lambda>(name, p). (name, Some p)) profiles)"


section \<open>Example profiles and worlds\<close>

definition profile0 :: ServerProfile where
  "profile0 =
     \<lparr>host = ''staging.example.com'', port = Some 22, username = ''deploy'',
      deployPath = ''/srv/app'', backupPath = ''/srv/backup'', environment = None,
      uploadType = Some ''rsync'', localPath = Some ''dist'', files = None,
      buildCommand = Some ''npm run build'', installCommand = Some ''npm install'',
      buildCommandRemote = None, restartCommand = Some ''pm2 restart app'',
      verifyCommand = Some ''curl -f http://localhost/'', url = None\<rparr>"

text \<open>A world in which everything succeeds and every prompt is answered yes.\<close>

definition world_ok :: world where
  "world_ok =
     \<lparr>execSync_reply = (\<lambda>h c. Inr []), prompt_reply = (\<lambda>h p. True),
      servers_file = (\<lambda>h. Some (profile_store [(''staging-server'', profile0)])),
      now_iso = (\<lambda>h. ''2024-01-02T03:04:05.678Z''),
      connect_reply = (\<lambda>h. None), execCommand_reply = (\<lambda>h c. Completed (Some 0) [] []),
      putFile_reply = (\<lambda>h. None), putFiles_reply = (\<lambda>h. None),
      putDirectory_reply = (\<lambda>h. None), requestExec_reply = (\<lambda>h. None),
      rejection_order = (\<lambda>h. 0),
      parse_deploy_info = (\<lambda>s. None), parse_package_version = (\<lambda>s. None),
      parse_pm2_list = (\<lambda>s. [])\<rparr>"

text \<open>A world like \<open>world_ok\<close> in which one remote command exits with status 1.\<close>

definition world_cmd_fails :: "string \<Rightarrow> world" where
  "world_cmd_fails c =
     world_ok\<lparr>execCommand_reply :=
       (\<lambda>h cmd. if cmd = c then Completed (Some 1) [] ''failed'' else Completed (Some 0) [] [])\<rparr>"


text \<open>A profile for a static site: no build, install, remote build, restart or verify command.\<close>

definition profile_static :: ServerProfile where
  "profile_static =
     profile0\<lparr>buildCommand := Some [], installCommand := Some [], buildCommandRemote := None,
              restartCommand := Some [], verifyCommand := None\<rparr>"

text \<open>
  A world for the status report: the marker file \<open>/srv/app/.deploy-info\<close> exists and
  holds valid JSON with a last-deploy time and a version, \<open>stat\<close> fails on the remote
  host, and there is no \<open>package.json\<close>.
\<close>

definition marker_json :: string where
  "marker_json =
     ''{'' @ dq @ ''lastDeploy'' @ dq @ '': '' @ dq @ ''2024-05-01'' @ dq @ '', ''
     @ dq @ ''currentVersion'' @ dq @ '': '' @ dq @ ''1.2.3'' @ dq @ ''}''"

definition test_f :: "string \<Rightarrow> string" where
  "test_f path =
     ''test -f '' @ dq @ path @ dq @ '' && echo '' @ dq @ ''exists'' @ dq
     @ '' || echo '' @ dq @ ''not_exists'' @ dq"

definition world_marker :: world where
  "world_marker =
     world_ok\<lparr>
       execCommand_reply := (\<lambda>h cmd.
         if cmd = test_f ''/srv/app/.deploy-info'' then Completed (Some 0) ''exists'' []
         else if cmd = ''cat /srv/app/.deploy-info'' then Completed (Some 0) marker_json []
         else if cmd = ''stat -c %y /srv/app'' then Completed (Some 1) [] ''stat: invalid option''
         else if cmd = test_f ''/srv/app/package.json'' then Completed (Some 0) ''not_exists'' []
         else Completed (Some 0) [] []),
       parse_deploy_info := (\<lambda>s.
         if s = marker_json
         then Some \<lparr>lastDeploy = Some ''2024-05-01'', currentVersion = Some ''1.2.3''\<rparr>
         else None)\<rparr>"









section \<open>Rules for computations\<close>

subsection \<open>Sequencing\<close>

lemma io_seq_apply:
  "io_seq m n h v =
     (case m h v of
        (Inl e, v', evs) \<Rightarrow> (Inl e, v', evs)
      | (Inr x, v', evs) \<Rightarrow> (case n (h @ evs) v' of (r, v'', evs') \<Rightarrow> (r, v'', evs @ evs')))"
  by (simp add: io_seq_def io_bind_def)

lemma io_seq_Inl: "m h v = (Inl e, v', evs) \<Longrightarrow> io_seq m n h v = (Inl e, v', evs)"
  by (simp add: io_seq_apply)

lemma io_seq_Inr:
  "m h v = (Inr x, v', evs) \<Longrightarrow> n (h @ evs) v' = (r, v'', evs')
   \<Longrightarrow> io_seq m n h v = (r, v'', evs @ evs')"
  by (simp add: io_seq_apply)

lemma io_bind_Inl: "m h v = (Inl e, v', evs) \<Longrightarrow> io_bind m f h v = (Inl e, v', evs)"
  by (simp add: io_bind_def)

lemma io_bind_Inr:
  "m h v = (Inr x, v', evs) \<Longrightarrow> f x (h @ evs) v' = (r, v'', evs')
   \<Longrightarrow> io_bind m f h v = (r, v'', evs @ evs')"
  by (simp add: io_bind_def)

lemma try_catch_Inr: "m h v = (Inr x, v', evs) \<Longrightarrow> try_catch m handler h v = (Inr x, v', evs)"
  by (simp add: try_catch_def)

lemma try_catch_Inl:
  "m h v = (Inl e, v', evs) \<Longrightarrow> handler e (h @ evs) v' = (r, v'', evs')
   \<Longrightarrow> try_catch m handler h v = (r, v'', evs @ evs')"
  by (simp add: try_catch_def)

lemma method_call_Some:
  "method_call m body h (Some c) =
     (case body c (h @ [Call m]) (Some c) of (r, v', evs) \<Rightarrow> (r, v', Call m # evs))"
  by (simp add: method_call_def io_seq_def io_bind_def emit_def split: prod.splits sum.splits)

subsection \<open>Rules for \<open>emits\<close>\<close>

lemma emits_return: "emits P (io_return x)"
  by (simp add: emits_def io_return_def)

lemma emits_throw: "emits P (io_throw e)"
  by (simp add: emits_def io_throw_def)

lemma emits_ask: "emits P (io_ask oracle)"
  by (simp add: emits_def io_ask_def)

lemma emits_get_ssh: "emits P get_ssh"
  by (simp add: emits_def get_ssh_def)

lemma emits_set_ssh: "emits P (set_ssh x)"
  by (simp add: emits_def set_ssh_def)

lemma emits_set_connected: "emits P (set_connected b)"
  by (simp add: emits_def set_connected_def)

lemma emits_emit: "P e \<Longrightarrow> emits P (emit e)"
  by (simp add: emits_def emit_def)

lemma emits_perform: "P e \<Longrightarrow> emits P (perform e oracle)"
  by (simp add: emits_def perform_def)

lemma emits_settle: "emits P (settle reply)"
  by (cases reply) (simp_all add: settle_def emits_return emits_throw)

lemma emits_bind:
  assumes "emits P m" and "\<And>x. emits P (f x)"
  shows "emits P (io_bind m f)"
  unfolding emits_def
proof (intro allI)
  fix h v
  obtain r v' evs where m: "m h v = (r, v', evs)" by (cases "m h v") auto
  from assms(1) m have evs: "list_all P evs" unfolding emits_def by (metis snd_conv)
  show "list_all P (events (io_bind m f h v))"
  proof (cases r)
    case (Inl e)
    with m evs show ?thesis by (simp add: io_bind_def)
  next
    case (Inr x)
    obtain r2 v2 evs2 where f: "f x (h @ evs) v' = (r2, v2, evs2)" by (cases "f x (h @ evs) v'") auto
    from assms(2) f have "list_all P evs2" unfolding emits_def by (metis snd_conv)
    with m Inr f evs show ?thesis by (simp add: io_bind_def)
  qed
qed

lemma emits_seq: "emits P m \<Longrightarrow> emits P n \<Longrightarrow> emits P (io_seq m n)"
  by (simp add: io_seq_def emits_bind)

lemma emits_when: "emits P m \<Longrightarrow> emits P (io_when b m)"
  by (simp add: io_when_def emits_seq emits_return)

lemma emits_try_catch:
  assumes "emits P m" and "\<And>e. emits P (handler e)"
  shows "emits P (try_catch m handler)"
  unfolding emits_def
proof (intro allI)
  fix h v
  obtain r v' evs where m: "m h v = (r, v', evs)" by (cases "m h v") auto
  from assms(1) m have evs: "list_all P evs" unfolding emits_def by (metis snd_conv)
  show "list_all P (events (try_catch m handler h v))"
  proof (cases r)
    case (Inr x)
    with m evs show ?thesis by (simp add: try_catch_def)
  next
    case (Inl e)
    obtain r2 v2 evs2 where f: "handler e (h @ evs) v' = (r2, v2, evs2)"
      by (cases "handler e (h @ evs) v'") auto
    from assms(2) f have "list_all P evs2" unfolding emits_def by (metis snd_conv)
    with m Inl f evs show ?thesis by (simp add: try_catch_def)
  qed
qed

lemma emits_try_finally:
  assumes "emits P m" and "emits P fin"
  shows "emits P (try_finally m fin)"
  unfolding emits_def
proof (intro allI)
  fix h v
  obtain r v' evs where m: "m h v = (r, v', evs)" by (cases "m h v") auto
  from assms(1) m have evs: "list_all P evs" unfolding emits_def by (metis snd_conv)
  obtain r2 v2 evs2 where f: "fin (h @ evs) v' = (r2, v2, evs2)" by (cases "fin (h @ evs) v'") auto
  from assms(2) f have "list_all P evs2" unfolding emits_def by (metis snd_conv)
  with m f evs show "list_all P (events (try_finally m fin h v))"
    by (cases r2) (simp_all add: try_finally_def)
qed

lemma emits_if: "(b \<Longrightarrow> emits P m) \<Longrightarrow> (\<not> b \<Longrightarrow> emits P n) \<Longrightarrow> emits P (if b then m else n)"
  by simp

lemma emits_case_option:
  "emits P a \<Longrightarrow> (\<And>x. emits P (b x)) \<Longrightarrow> emits P (case opt of None \<Rightarrow> a | Some x \<Rightarrow> b x)"
  by (cases opt) simp_all

lemma emits_case_sum:
  "(\<And>x. emits P (a x)) \<Longrightarrow> (\<And>x. emits P (b x)) \<Longrightarrow> emits P (case s of Inl x \<Rightarrow> a x | Inr x \<Rightarrow> b x)"
  by (cases s) simp_all

lemma emits_case_reply:
  "(\<And>m. emits P (a m)) \<Longrightarrow> (\<And>code out err. emits P (b code out err))
   \<Longrightarrow> emits P (case reply of Rejected m \<Rightarrow> a m | Completed code out err \<Rightarrow> b code out err)"
  by (cases reply) simp_all

lemma emits_method_call:
  assumes "P (Call m)" and "\<And>this. emits P (body this)"
  shows "emits P (method_call m body)"
  unfolding emits_def
proof (intro allI)
  fix h v
  show "list_all P (events (method_call m body h v))"
  proof (cases v)
    case None
    then show ?thesis by (simp add: method_call_def)
  next
    case (Some c)
    have "emits P (io_seq (emit (Call m)) (body c))"
      using assms by (simp add: emits_seq emits_emit)
    then show ?thesis using Some by (simp add: method_call_def emits_def)
  qed
qed

lemma emits_case_store:
  "(\<And>m. emits P (a m)) \<Longrightarrow> emits P b \<Longrightarrow> (\<And>servers. emits P (c servers))
   \<Longrightarrow> emits P (case store of Unreadable m \<Rightarrow> a m | NoServers \<Rightarrow> b | Servers servers \<Rightarrow> c servers)"
  by (cases store) simp_all

lemmas emits_rules =
  emits_return emits_throw emits_ask emits_get_ssh emits_set_ssh emits_set_connected
  emits_settle emits_bind emits_seq emits_when emits_try_catch emits_try_finally
  emits_if emits_case_option emits_case_sum emits_case_reply emits_case_store


subsection \<open>Rules for \<open>keeps\<close>\<close>

lemma keeps_return: "keeps (io_return x)"
  by (simp add: keeps_def io_return_def)

lemma keeps_throw: "keeps (io_throw e)"
  by (simp add: keeps_def io_throw_def)

lemma keeps_ask: "keeps (io_ask oracle)"
  by (simp add: keeps_def io_ask_def)

lemma keeps_emit: "keeps (emit e)"
  by (simp add: keeps_def emit_def)

lemma keeps_perform: "keeps (perform e oracle)"
  by (simp add: keeps_def perform_def)

lemma keeps_settle: "keeps (settle reply)"
  by (cases reply) (simp_all add: settle_def keeps_return keeps_throw)

lemma keeps_bind:
  assumes "keeps m" and "\<And>x. keeps (f x)"
  shows "keeps (io_bind m f)"
  unfolding keeps_def
proof (intro allI)
  fix h v
  obtain r v' evs where m: "m h v = (r, v', evs)" by (cases "m h v") auto
  from assms(1) m have v': "v' = v" unfolding keeps_def by (metis fst_conv snd_conv)
  show "session (io_bind m f h v) = v"
  proof (cases r)
    case (Inl e)
    with m v' show ?thesis by (simp add: io_bind_def)
  next
    case (Inr x)
    obtain r2 v2 evs2 where f: "f x (h @ evs) v' = (r2, v2, evs2)" by (cases "f x (h @ evs) v'") auto
    from assms(2) f have "v2 = v'" unfolding keeps_def by (metis fst_conv snd_conv)
    with m Inr f v' show ?thesis by (simp add: io_bind_def)
  qed
qed

lemma keeps_seq: "keeps m \<Longrightarrow> keeps n \<Longrightarrow> keeps (io_seq m n)"
  by (simp add: io_seq_def keeps_bind)

lemma keeps_when: "keeps m \<Longrightarrow> keeps (io_when b m)"
  by (simp add: io_when_def keeps_seq keeps_return)

lemma keeps_try_catch:
  assumes "keeps m" and "\<And>e. keeps (handler e)"
  shows "keeps (try_catch m handler)"
  unfolding keeps_def
proof (intro allI)
  fix h v
  obtain r v' evs where m: "m h v = (r, v', evs)" by (cases "m h v") auto
  from assms(1) m have v': "v' = v" unfolding keeps_def by (metis fst_conv snd_conv)
  show "session (try_catch m handler h v) = v"
  proof (cases r)
    case (Inr x)
    with m v' show ?thesis by (simp add: try_catch_def)
  next
    case (Inl e)
    obtain r2 v2 evs2 where f: "handler e (h @ evs) v' = (r2, v2, evs2)"
      by (cases "handler e (h @ evs) v'") auto
    from assms(2) f have "v2 = v'" unfolding keeps_def by (metis fst_conv snd_conv)
    with m Inl f v' show ?thesis by (simp add: try_catch_def)
  qed
qed

lemma keeps_if: "(b \<Longrightarrow> keeps m) \<Longrightarrow> (\<not> b \<Longrightarrow> keeps n) \<Longrightarrow> keeps (if b then m else n)"
  by simp

lemma keeps_case_option:
  "keeps a \<Longrightarrow> (\<And>x. keeps (b x)) \<Longrightarrow> keeps (case opt of None \<Rightarrow> a | Some x \<Rightarrow> b x)"
  by (cases opt) simp_all

lemma keeps_case_sum:
  "(\<And>x. keeps (a x)) \<Longrightarrow> (\<And>x. keeps (b x)) \<Longrightarrow> keeps (case s of Inl x \<Rightarrow> a x | Inr x \<Rightarrow> b x)"
  by (cases s) simp_all

lemma keeps_case_reply:
  "(\<And>m. keeps (a m)) \<Longrightarrow> (\<And>code out err. keeps (b code out err))
   \<Longrightarrow> keeps (case reply of Rejected m \<Rightarrow> a m | Completed code out err \<Rightarrow> b code out err)"
  by (cases reply) simp_all

lemma keeps_method_call:
  assumes "\<And>this. keeps (body this)"
  shows "keeps (method_call m body)"
  unfolding keeps_def
proof (intro allI)
  fix h v
  show "session (method_call m body h v) = v"
  proof (cases v)
    case None
    then show ?thesis by (simp add: method_call_def)
  next
    case (Some c)
    have "keeps (io_seq (emit (Call m)) (body c))"
      using assms by (simp add: keeps_seq keeps_emit)
    then show ?thesis using Some by (simp add: method_call_def keeps_def)
  qed
qed

lemma keeps_case_store:
  "(\<And>m. keeps (a m)) \<Longrightarrow> keeps b \<Longrightarrow> (\<And>servers. keeps (c servers))
   \<Longrightarrow> keeps (case store of Unreadable m \<Rightarrow> a m | NoServers \<Rightarrow> b | Servers servers \<Rightarrow> c servers)"
  by (cases store) simp_all

lemmas keeps_rules =
  keeps_return keeps_throw keeps_ask keeps_emit keeps_perform keeps_settle keeps_bind keeps_seq
  keeps_when keeps_try_catch keeps_if keeps_case_option keeps_case_sum keeps_case_reply keeps_case_store
  keeps_method_call

subsection \<open>The methods of the session\<close>

lemma keeps_exec: "keeps (exec w command)"
  unfolding exec_def by (intro keeps_rules)

lemma keeps_uploadFiles: "keeps (uploadFiles w fs rd)"
  unfolding uploadFiles_def by (intro keeps_rules)

lemma keeps_uploadDirectory: "keeps (uploadDirectory w ld rd)"
  unfolding uploadDirectory_def by (intro keeps_rules)

lemma emits_exec:
  assumes "P (Call (M_exec command))" and "\<And>cwd. P (NodeSSH (ExecCommand command cwd))"
  shows "emits P (exec w command)"
  unfolding exec_def using assms
  by (intro emits_method_call emits_rules emits_perform) simp_all

lemma emits_uploadFiles:
  assumes "P (Call (M_uploadFiles fs rd))" and "\<And>ts. P (NodeSSH (PutFiles ts))"
  shows "emits P (uploadFiles w fs rd)"
  unfolding uploadFiles_def using assms
  by (intro emits_method_call emits_rules emits_perform) simp_all

lemma emits_uploadDirectory:
  assumes "P (Call (M_uploadDirectory ld rd))" and "P (NodeSSH (PutDirectory ld rd))"
  shows "emits P (uploadDirectory w ld rd)"
  unfolding uploadDirectory_def using assms
  by (intro emits_method_call emits_rules emits_perform) simp_all

lemma emits_execSync:
  assumes "P (ExecSync command)"
  shows "emits P (execSync w command)"
  unfolding execSync_def using assms
  by (intro emits_rules emits_perform) simp_all

lemma keeps_execSync: "keeps (execSync w command)"
  unfolding execSync_def by (intro keeps_rules)

subsection \<open>Construction, connection and release, step by step\<close>

lemma new_SSHConnection_apply:
  "new_SSHConnection cfg h v = (Inr (), Some \<lparr>config = cfg, connected = False\<rparr>, [Call (M_new cfg)])"
  by (simp add: new_SSHConnection_def io_seq_apply emit_def set_ssh_def)

lemma connect_apply:
  "connect w h (Some c) =
     (case connect_reply w (h @ [Call M_connect, Spinner Start St_connect]) of
        None \<Rightarrow>
          (Inr (), Some (c\<lparr>connected := True\<rparr>),
           [Call M_connect, Spinner Start St_connect,
            NodeSSH (Connect (host (config c)) (port_or_22 (config c))), Spinner Succeed St_connect])
      | Some m \<Rightarrow>
          (Inl (SSHConnectFailed (Lib m)), Some c,
           [Call M_connect, Spinner Start St_connect,
            NodeSSH (Connect (host (config c)) (port_or_22 (config c))), Spinner Fail St_connect]))"
  by (simp add: connect_def method_call_Some io_seq_apply io_bind_def try_catch_def emit_def
      perform_def settle_def io_throw_def io_return_def set_connected_def split: option.splits)

text \<open>\<open>connect\<close> returns normally exactly when it reports success.\<close>

lemma connect_reports:
  "result (connect w h (Some c)) = Inr ()
   \<longleftrightarrow> Spinner Succeed St_connect \<in> set (events (connect w h (Some c)))"
  by (simp add: connect_apply split: option.splits)

lemma disconnect_apply:
  "disconnect h (Some c) =
     (Inr (), Some (c\<lparr>connected := False\<rparr>),
      if connected c then [Call M_disconnect, NodeSSH Dispose] else [Call M_disconnect])"
  by (simp add: disconnect_def method_call_Some io_seq_apply emit_def set_connected_def
      io_return_def)

lemma release_None: "release h None = (Inr (), None, [])"
  by (simp add: release_def io_bind_def get_ssh_def io_return_def)

lemma release_Some:
  "release h (Some c) =
     (Inr (), Some (c\<lparr>connected := False\<rparr>),
      if connected c then [Call M_disconnect, NodeSSH Dispose] else [Call M_disconnect])"
  by (simp add: release_def io_bind_def get_ssh_def disconnect_apply)

subsection \<open>The stages leave the session alone\<close>

lemma keeps_buildProject: "keeps (buildProject w cfg)"
  unfolding buildProject_def by (intro keeps_rules keeps_execSync)

lemma keeps_backupCurrentVersion: "keeps (backupCurrentVersion w cfg)"
  unfolding backupCurrentVersion_def by (intro keeps_rules keeps_exec)

lemma keeps_uploadFiles_deploy: "keeps (uploadFiles_deploy w cfg)"
  unfolding uploadFiles_deploy_def
  by (intro keeps_rules keeps_exec keeps_uploadFiles keeps_uploadDirectory)

lemma keeps_installAndBuild: "keeps (installAndBuild w cfg)"
  unfolding installAndBuild_def by (intro keeps_rules keeps_exec)

lemma keeps_restartService: "keeps (restartService w cfg)"
  unfolding restartService_def by (intro keeps_rules keeps_exec)

lemma keeps_verifyDeployment: "keeps (verifyDeployment w cfg)"
  unfolding verifyDeployment_def by (intro keeps_rules keeps_exec)

lemma keeps_after_backup: "keeps (after_backup w cfg)"
  unfolding after_backup_def
  by (intro keeps_seq keeps_uploadFiles_deploy keeps_installAndBuild keeps_restartService
      keeps_verifyDeployment)

lemma keeps_after_connect: "keeps (after_connect w cfg)"
  unfolding after_connect_def by (intro keeps_seq keeps_backupCurrentVersion keeps_after_backup)

lemmas emits_all = emits_rules emits_emit emits_perform emits_exec emits_execSync
  emits_uploadFiles emits_uploadDirectory

lemma quiet_buildProject: "emits (\<lambda>e. \<not> lifecycle e) (buildProject w cfg)"
  unfolding buildProject_def by (intro emits_all) (simp_all add: lifecycle_def)

lemma quiet_backupCurrentVersion: "emits (\<lambda>e. \<not> lifecycle e) (backupCurrentVersion w cfg)"
  unfolding backupCurrentVersion_def by (intro emits_all) (simp_all add: lifecycle_def)

lemma quiet_uploadFiles_deploy: "emits (\<lambda>e. \<not> lifecycle e) (uploadFiles_deploy w cfg)"
  unfolding uploadFiles_deploy_def by (intro emits_all) (simp_all add: lifecycle_def)

lemma quiet_installAndBuild: "emits (\<lambda>e. \<not> lifecycle e) (installAndBuild w cfg)"
  unfolding installAndBuild_def by (intro emits_all) (simp_all add: lifecycle_def)

lemma quiet_restartService: "emits (\<lambda>e. \<not> lifecycle e) (restartService w cfg)"
  unfolding restartService_def by (intro emits_all) (simp_all add: lifecycle_def)

lemma quiet_verifyDeployment: "emits (\<lambda>e. \<not> lifecycle e) (verifyDeployment w cfg)"
  unfolding verifyDeployment_def by (intro emits_all) (simp_all add: lifecycle_def)

lemma quiet_after_connect: "emits (\<lambda>e. \<not> lifecycle e) (after_connect w cfg)"
  unfolding after_connect_def after_backup_def
  by (intro emits_seq quiet_backupCurrentVersion quiet_uploadFiles_deploy quiet_installAndBuild
      quiet_restartService quiet_verifyDeployment)

subsection \<open>The ways \<open>executeDeployment\<close> can end\<close>

lemma executeDeployment_alt:
  "executeDeployment w cfg =
     io_seq (set_ssh None)
       (try_finally
          (io_seq (buildProject w cfg)
          (io_seq (new_SSHConnection cfg)
          (io_seq (connect w) (after_connect w cfg))))
          release)"
  by (simp add: executeDeployment_def after_connect_def after_backup_def release_def)

lemma executeDeployment_cases:
  assumes run: "executeDeployment w cfg h v = (r, v', evs)"
  obtains
    (build_failed) e where
      "buildProject w cfg h None = (Inl e, None, evs)" "r = Inl e" "v' = None"
  | (connect_failed) e1 m where
      "buildProject w cfg h None = (Inr (), None, e1)"
      "evs = e1 @ connect_events cfg Fail @ [Call M_disconnect]"
      "r = Inl (SSHConnectFailed (Lib m))"
      "v' = Some \<lparr>config = cfg, connected = False\<rparr>"
  | (connected) e1 e2 where
      "buildProject w cfg h None = (Inr (), None, e1)"
      "after_connect w cfg (h @ e1 @ connect_events cfg Succeed)
         (Some \<lparr>config = cfg, connected = True\<rparr>)
       = (r, Some \<lparr>config = cfg, connected = True\<rparr>, e2)"
      "evs = e1 @ connect_events cfg Succeed @ e2 @ [Call M_disconnect, NodeSSH Dispose]"
      "v' = Some \<lparr>config = cfg, connected = False\<rparr>"
proof -
  obtain r1 v1 e1 where b: "buildProject w cfg h None = (r1, v1, e1)"
    by (cases "buildProject w cfg h None") auto
  have v1: "v1 = None"
    using keeps_buildProject [of w cfg] b unfolding keeps_def by (metis fst_conv snd_conv)
  show thesis
  proof (cases r1)
    case (Inl e)
    with b v1 run have "r = Inl e \<and> v' = None \<and> evs = e1"
      by (simp add: executeDeployment_alt io_seq_apply set_ssh_def try_finally_def release_None)
    with b v1 Inl show thesis by (intro build_failed [of e]) simp_all
  next
    case (Inr u)
    let ?c0 = "\<lparr>config = cfg, connected = False\<rparr>"
    let ?c1 = "\<lparr>config = cfg, connected = True\<rparr>"
    show thesis
    proof (cases "connect_reply w (h @ e1 @ [Call (M_new cfg), Call M_connect, Spinner Start St_connect])")
      case (Some m)
      with b v1 Inr run
      have "r = Inl (SSHConnectFailed (Lib m)) \<and> v' = Some ?c0
            \<and> evs = e1 @ connect_events cfg Fail @ [Call M_disconnect]"
        by (simp add: executeDeployment_alt io_seq_apply set_ssh_def try_finally_def
            new_SSHConnection_apply connect_apply release_Some connect_events_def)
      with b v1 Inr show thesis by (intro connect_failed [of e1 m]) simp_all
    next
      case None
      obtain r2 v2 e2 where a:
        "after_connect w cfg (h @ e1 @ connect_events cfg Succeed) (Some ?c1) = (r2, v2, e2)"
        by (cases "after_connect w cfg (h @ e1 @ connect_events cfg Succeed) (Some ?c1)") auto
      have v2: "v2 = Some ?c1"
        using keeps_after_connect [of w cfg] a unfolding keeps_def by (metis fst_conv snd_conv)
      from b v1 Inr None a v2 run
      have "r = r2 \<and> v' = Some ?c0
            \<and> evs = e1 @ connect_events cfg Succeed @ e2 @ [Call M_disconnect, NodeSSH Dispose]"
        by (simp add: executeDeployment_alt io_seq_apply set_ssh_def try_finally_def
            new_SSHConnection_apply connect_apply release_Some connect_events_def)
      with b v1 Inr a v2 show thesis by (intro connected [of e1 e2]) simp_all
    qed
  qed
qed

section \<open>The session is released exactly once\<close>

lemma quiet_count:
  assumes "list_all (\<lambda>e. \<not> lifecycle e) xs" and "lifecycle e"
  shows "count_list xs e = 0"
  using assms by (induction xs) auto

lemma quiet_notin:
  assumes "list_all (\<lambda>e. \<not> lifecycle e) xs" and "lifecycle e"
  shows "e \<notin> set xs"
  using assms by (auto simp: list_all_iff)

text \<open>
  C1. In every run of \<open>executeDeployment\<close> the number of releases of the remote
  connection equals the number of successful connections. When the connect stage has
  reported success (which it does exactly when \<open>connect\<close> returns without error), \<open>disconnect\<close> is invoked exactly once and disposes the connection
  exactly once, as the last two events of the run, whatever the outcome \<open>r\<close> of the
  later stages (success or the error of the stage that failed); the session ends
  disconnected.
\<close>

theorem disconnect_exactly_once:
  assumes run: "executeDeployment w cfg h v = (r, v', evs)"
  shows "count_list evs (NodeSSH Dispose) = count_list evs (Spinner Succeed St_connect)
       \<and> (Spinner Succeed St_connect \<in> set evs \<longrightarrow>
            count_list evs (Call M_disconnect) = 1
          \<and> count_list evs (NodeSSH Dispose) = 1
          \<and> (\<exists>work. evs = work @ [Call M_disconnect, NodeSSH Dispose])
          \<and> v' = Some \<lparr>config = cfg, connected = False\<rparr>)"
  using run
proof (cases rule: executeDeployment_cases)
  case (build_failed e)
  have "list_all (\<lambda>e. \<not> lifecycle e) evs"
    using quiet_buildProject [of w cfg] build_failed(1) unfolding emits_def by (metis snd_conv)
  then have "count_list evs (NodeSSH Dispose) = 0" "count_list evs (Spinner Succeed St_connect) = 0"
    "Spinner Succeed St_connect \<notin> set evs"
    by (simp_all add: quiet_count quiet_notin lifecycle_def)
  then show ?thesis by simp
next
  case (connect_failed e1 m)
  have q: "list_all (\<lambda>e. \<not> lifecycle e) e1"
    using quiet_buildProject [of w cfg] connect_failed(1) unfolding emits_def by (metis snd_conv)
  then have "count_list e1 (NodeSSH Dispose) = 0" "count_list e1 (Spinner Succeed St_connect) = 0"
    "Spinner Succeed St_connect \<notin> set e1"
    by (simp_all add: quiet_count quiet_notin lifecycle_def)
  with connect_failed(2) show ?thesis by (simp add: connect_events_def)
next
  case (connected e1 e2)
  have q1: "list_all (\<lambda>e. \<not> lifecycle e) e1"
    using quiet_buildProject [of w cfg] connected(1) unfolding emits_def by (metis snd_conv)
  have q2: "list_all (\<lambda>e. \<not> lifecycle e) e2"
    using quiet_after_connect [of w cfg] connected(2) unfolding emits_def by (metis snd_conv)
  have c1: "count_list e1 (NodeSSH Dispose) = 0" "count_list e1 (Spinner Succeed St_connect) = 0"
    "count_list e1 (Call M_disconnect) = 0"
    using q1 by (simp_all add: quiet_count lifecycle_def)
  have c2: "count_list e2 (NodeSSH Dispose) = 0" "count_list e2 (Spinner Succeed St_connect) = 0"
    "count_list e2 (Call M_disconnect) = 0"
    using q2 by (simp_all add: quiet_count lifecycle_def)
  have "evs = (e1 @ connect_events cfg Succeed @ e2) @ [Call M_disconnect, NodeSSH Dispose]"
    using connected(3) by simp
  then have last: "\<exists>work. evs = work @ [Call M_disconnect, NodeSSH Dispose]" by blast
  from c1 c2 connected(3,4) last show ?thesis by (simp add: connect_events_def)
qed

theorem disconnect_exactly_once_witness:
  "result (executeDeployment (world_cmd_fails ''cd /srv/app && npm install'') profile0 [] None)
     = Inl (RemoteExecFailed (CommandFailed ''failed''))
   \<and> Spinner Succeed St_connect
     \<in> set (events (executeDeployment (world_cmd_fails ''cd /srv/app && npm install'') profile0 [] None))
   \<and> count_list (events (executeDeployment (world_cmd_fails ''cd /srv/app && npm install'') profile0 [] None))
       (Call M_disconnect) = 1
   \<and> count_list (events (executeDeployment (world_cmd_fails ''cd /srv/app && npm install'') profile0 [] None))
       (NodeSSH Dispose) = 1
   \<and> session (executeDeployment (world_cmd_fails ''cd /srv/app && npm install'') profile0 [] None)
     = Some \<lparr>config = profile0, connected = False\<rparr>"
proof -
  let ?run = "executeDeployment (world_cmd_fails ''cd /srv/app && npm install'') profile0 [] None"
  have r: "result ?run = Inl (RemoteExecFailed (CommandFailed ''failed''))"
    by code_simp
  have c: "Spinner Succeed St_connect \<in> set (events ?run)"
    by code_simp
  have "?run = (result ?run, session ?run, events ?run)"
    by simp
  from disconnect_exactly_once [OF this] r c show ?thesis
    by simp
qed

section \<open>Backup comes before upload\<close>

lemma exec_apply:
  assumes "connected c"
  shows "exec w command h (Some c) =
           (if exec_ok (execCommand_reply w (h @ [Call (M_exec command)]) command)
            then Inr (exec_out (execCommand_reply w (h @ [Call (M_exec command)]) command))
            else Inl (exec_error (execCommand_reply w (h @ [Call (M_exec command)]) command)),
            Some c,
            [Call (M_exec command), NodeSSH (ExecCommand command (deployPath (config c)))])"
  using assms
  by (simp add: exec_def method_call_Some try_catch_def io_bind_def perform_def io_throw_def
      io_return_def exec_ok_def exec_error_def exec_out_def split: exec_reply.splits)

lemma backupCurrentVersion_apply:
  "backupCurrentVersion w cfg h (Some \<lparr>config = cfg, connected = True\<rparr>) =
     (if \<not> backup_mkdir_ok w cfg h then
        (Inl (exec_error (execCommand_reply w
                (h @ [Spinner Start St_backup, Call (M_exec (backup_mkdir cfg))]) (backup_mkdir cfg))),
         Some \<lparr>config = cfg, connected = True\<rparr>,
         [Spinner Start St_backup, Call (M_exec (backup_mkdir cfg)),
          NodeSSH (ExecCommand (backup_mkdir cfg) (deployPath cfg)), Spinner Fail St_backup])
      else if \<not> backup_copy_ok w cfg h then
        (Inl (exec_error (execCommand_reply w
                (h @ [Spinner Start St_backup, Call (M_exec (backup_mkdir cfg)),
                      NodeSSH (ExecCommand (backup_mkdir cfg) (deployPath cfg)),
                      Call (M_exec (backup_copy w cfg h))]) (backup_copy w cfg h))),
         Some \<lparr>config = cfg, connected = True\<rparr>,
         [Spinner Start St_backup, Call (M_exec (backup_mkdir cfg)),
          NodeSSH (ExecCommand (backup_mkdir cfg) (deployPath cfg)),
          Call (M_exec (backup_copy w cfg h)),
          NodeSSH (ExecCommand (backup_copy w cfg h) (deployPath cfg)), Spinner Fail St_backup])
      else
        (Inr (), Some \<lparr>config = cfg, connected = True\<rparr>,
         [Spinner Start St_backup, Call (M_exec (backup_mkdir cfg)),
          NodeSSH (ExecCommand (backup_mkdir cfg) (deployPath cfg)),
          Call (M_exec (backup_copy w cfg h)),
          NodeSSH (ExecCommand (backup_copy w cfg h) (deployPath cfg)), Spinner Succeed St_backup]))"
  by (simp add: backupCurrentVersion_def io_seq_apply io_bind_def try_catch_def emit_def io_ask_def
      exec_apply io_throw_def backup_mkdir_ok_def backup_copy_ok_def backup_mkdir_def
      backup_copy_def)

lemma local_buildProject:
  "emits (\<lambda>e. \<not> upload_event e \<and> \<not> backup_report e) (buildProject w cfg)"
  unfolding buildProject_def
  by (intro emits_all) (simp_all add: upload_event_def backup_report_def)

lemma after_backup_reports:
  "emits (\<lambda>e. \<not> backup_report e) (after_backup w cfg)"
  unfolding after_backup_def uploadFiles_deploy_def installAndBuild_def restartService_def
    verifyDeployment_def
  by (intro emits_all) (simp_all add: backup_report_def)

lemma prefix_before_first:
  assumes "A @ R = pre @ e # post" and "e \<notin> set A"
  shows "\<exists>q. pre = A @ q"
proof -
  from assms(1) consider us where "A = pre @ us" "us @ R = e # post"
    | us where "A @ us = pre" "R = us @ e # post"
    by (auto simp: append_eq_append_conv2)
  then show ?thesis
  proof cases
    case 1
    show ?thesis
    proof (cases us)
      case Nil
      with 1 show ?thesis by simp
    next
      case (Cons u us')
      with 1 have "e \<in> set A" by simp
      with assms(2) show ?thesis by simp
    qed
  next
    case 2
    then show ?thesis by auto
  qed
qed

lemma holds_notin: "list_all (\<lambda>e. \<not> P e) xs \<Longrightarrow> P e \<Longrightarrow> e \<notin> set xs"
  by (auto simp: list_all_iff)

text \<open>
  C3. In every run of \<open>executeDeployment\<close>: an upload event (an upload method of the
  session entered, or a transfer of the library) occurs only after the backup stage has
  reported success; and when the backup stage starts at a moment at which the world
  fails its \<open>mkdir\<close> command or its copy command, the run ends with an error, the
  backup stage reports the failure, and no upload event occurs at all.
\<close>

theorem backup_before_upload:
  assumes run: "executeDeployment w cfg h v = (r, v', evs)"
  shows "(\<forall>pre e post. evs = pre @ e # post \<and> upload_event e
            \<longrightarrow> Spinner Succeed St_backup \<in> set pre)
       \<and> (\<forall>pre post. evs = pre @ Spinner Start St_backup # post
              \<and> \<not> (backup_mkdir_ok w cfg (h @ pre) \<and> backup_copy_ok w cfg (h @ pre))
            \<longrightarrow> (\<exists>e. r = Inl e) \<and> Spinner Fail St_backup \<in> set evs
                \<and> \<not> list_ex upload_event evs)"
  using run
proof (cases rule: executeDeployment_cases)
  case (build_failed e)
  have "list_all (\<lambda>e. \<not> upload_event e \<and> \<not> backup_report e) evs"
    using local_buildProject [of w cfg] build_failed(1) unfolding emits_def by (metis snd_conv)
  then have "\<forall>e\<in>set evs. \<not> upload_event e \<and> \<not> backup_report e"
    by (simp add: list_all_iff)
  then have "\<forall>e\<in>set evs. \<not> upload_event e" and "Spinner Start St_backup \<notin> set evs"
    by (auto simp: backup_report_def)
  then show ?thesis by auto
next
  case (connect_failed e1 m)
  have "list_all (\<lambda>e. \<not> upload_event e \<and> \<not> backup_report e) e1"
    using local_buildProject [of w cfg] connect_failed(1) unfolding emits_def by (metis snd_conv)
  then have "\<forall>e\<in>set e1. \<not> upload_event e \<and> \<not> backup_report e"
    by (simp add: list_all_iff)
  with connect_failed(2)
  have "\<forall>e\<in>set evs. \<not> upload_event e" and "Spinner Start St_backup \<notin> set evs"
    by (auto simp: backup_report_def upload_event_def connect_events_def)
  then show ?thesis by auto
next
  case (connected e1 e2)
  let ?h2 = "h @ e1 @ connect_events cfg Succeed"
  let ?c1 = "\<lparr>config = cfg, connected = True\<rparr>"
  let ?mk = "backup_mkdir cfg"
  let ?cp = "backup_copy w cfg ?h2"
  have "list_all (\<lambda>e. \<not> upload_event e \<and> \<not> backup_report e) e1"
    using local_buildProject [of w cfg] connected(1) unfolding emits_def by (metis snd_conv)
  then have e1: "\<forall>e\<in>set e1. \<not> upload_event e \<and> \<not> backup_report e"
    by (simp add: list_all_iff)
  show ?thesis
  proof (cases "backup_mkdir_ok w cfg ?h2 \<and> backup_copy_ok w cfg ?h2")
    case False
    obtain bev where bev:
      "e2 = bev" "\<exists>e. r = Inl e" "Spinner Fail St_backup \<in> set bev"
      "\<forall>e\<in>set bev. \<not> upload_event e"
      using connected(2) False
      by (auto simp: after_connect_def io_seq_apply backupCurrentVersion_apply upload_event_def
          split: if_splits)
    from e1 bev connected(3) have no: "\<forall>e\<in>set evs. \<not> upload_event e"
      by (auto simp: connect_events_def upload_event_def)
    from bev connected(3) have "Spinner Fail St_backup \<in> set evs" by simp
    with no bev(2) show ?thesis by (auto simp: list_ex_iff)
  next
    case True
    let ?bev = "[Spinner Start St_backup, Call (M_exec ?mk),
                 NodeSSH (ExecCommand ?mk (deployPath cfg)), Call (M_exec ?cp),
                 NodeSSH (ExecCommand ?cp (deployPath cfg)), Spinner Succeed St_backup]"
    obtain r3 v3 e3 where a3: "after_backup w cfg (?h2 @ ?bev) (Some ?c1) = (r3, v3, e3)"
      by (cases "after_backup w cfg (?h2 @ ?bev) (Some ?c1)") auto
    from connected(2) True a3 have e2: "e2 = ?bev @ e3"
      by (simp add: after_connect_def io_seq_apply backupCurrentVersion_apply)
    have "list_all (\<lambda>e. \<not> backup_report e) e3"
      using after_backup_reports [of w cfg] a3 unfolding emits_def by (metis snd_conv)
    then have e3: "\<forall>e\<in>set e3. \<not> backup_report e" by (simp add: list_all_iff)
    let ?A = "e1 @ connect_events cfg Succeed @ ?bev"
    let ?T = "e3 @ [Call M_disconnect, NodeSSH Dispose]"
    have evs: "evs = ?A @ ?T" using connected(3) e2 by simp
    have A_no_upload: "\<forall>e\<in>set ?A. \<not> upload_event e"
      using e1 by (auto simp: connect_events_def upload_event_def)
    have order: "Spinner Succeed St_backup \<in> set pre"
      if "evs = pre @ e # post" "upload_event e" for pre e post
    proof -
      from A_no_upload that(2) have "e \<notin> set ?A" by blast
      with evs that(1) obtain q where "pre = ?A @ q"
        using prefix_before_first [of ?A ?T pre e post] by auto
      then show ?thesis by simp
    qed
    have start_once: False
      if "evs = pre @ Spinner Start St_backup # post"
        "\<not> (backup_mkdir_ok w cfg (h @ pre) \<and> backup_copy_ok w cfg (h @ pre))" for pre post
    proof -
      let ?A0 = "e1 @ connect_events cfg Succeed"
      let ?B0 = "[Call (M_exec ?mk), NodeSSH (ExecCommand ?mk (deployPath cfg)), Call (M_exec ?cp),
                  NodeSSH (ExecCommand ?cp (deployPath cfg)), Spinner Succeed St_backup] @ ?T"
      have "Spinner Start St_backup \<notin> set ?A0"
        using e1 by (auto simp: connect_events_def backup_report_def)
      moreover have "Spinner Start St_backup \<notin> set ?B0"
        using e3 by (auto simp: backup_report_def)
      moreover have "?A0 @ Spinner Start St_backup # ?B0 = pre @ Spinner Start St_backup # post"
        using evs that(1) by simp
      ultimately have "?A0 = pre"
        using append_Cons_eq_iff [of "Spinner Start St_backup" ?A0 ?B0 pre post] by blast
      then have "h @ pre = ?h2" by simp
      with True that(2) show False by simp
    qed
    from order start_once show ?thesis by blast
  qed
qed

theorem backup_before_upload_witness:
  "events (executeDeployment (world_cmd_fails ''mkdir -p /srv/backup'') profile0 [] None)
     = [Spinner Start St_build, ExecSync ''npm run build'', Spinner Succeed St_build, Call (M_new profile0),
        Call M_connect, Spinner Start St_connect, NodeSSH (Connect ''staging.example.com'' 22),
        Spinner Succeed St_connect]
       @ Spinner Start St_backup
       # [Call (M_exec ''mkdir -p /srv/backup''),
          NodeSSH (ExecCommand ''mkdir -p /srv/backup'' ''/srv/app''),
          Spinner Fail St_backup, Call M_disconnect, NodeSSH Dispose]
   \<and> \<not> backup_mkdir_ok (world_cmd_fails ''mkdir -p /srv/backup'') profile0
         ([] @ [Spinner Start St_build, ExecSync ''npm run build'', Spinner Succeed St_build,
                Call (M_new profile0), Call M_connect, Spinner Start St_connect,
                NodeSSH (Connect ''staging.example.com'' 22), Spinner Succeed St_connect])
   \<and> (\<exists>e. result (executeDeployment (world_cmd_fails ''mkdir -p /srv/backup'') profile0 [] None)
            = Inl e)
   \<and> Spinner Fail St_backup
       \<in> set (events (executeDeployment (world_cmd_fails ''mkdir -p /srv/backup'') profile0 [] None))
   \<and> \<not> list_ex upload_event
         (events (executeDeployment (world_cmd_fails ''mkdir -p /srv/backup'') profile0 [] None))"
proof -
  let ?w = "world_cmd_fails ''mkdir -p /srv/backup''"
  let ?run = "executeDeployment ?w profile0 [] None"
  let ?pre = "[Spinner Start St_build, ExecSync ''npm run build'', Spinner Succeed St_build,
               Call (M_new profile0), Call M_connect, Spinner Start St_connect,
               NodeSSH (Connect ''staging.example.com'' 22), Spinner Succeed St_connect]"
  let ?post = "[Call (M_exec ''mkdir -p /srv/backup''),
                NodeSSH (ExecCommand ''mkdir -p /srv/backup'' ''/srv/app''),
                Spinner Fail St_backup, Call M_disconnect, NodeSSH Dispose]"
  have ev: "events ?run = ?pre @ Spinner Start St_backup # ?post"
    by code_simp
  have nok: "\<not> backup_mkdir_ok ?w profile0 ([] @ ?pre)"
    by code_simp
  have "?run = (result ?run, session ?run, events ?run)"
    by simp
  from backup_before_upload [OF this]
  have "events ?run = ?pre @ Spinner Start St_backup # ?post
          \<and> \<not> (backup_mkdir_ok ?w profile0 ([] @ ?pre) \<and> backup_copy_ok ?w profile0 ([] @ ?pre))
        \<longrightarrow> (\<exists>e. result ?run = Inl e) \<and> Spinner Fail St_backup \<in> set (events ?run)
            \<and> \<not> list_ex upload_event (events ?run)"
    by blast
  with ev nok show ?thesis
    by blast
qed

section \<open>The ways \<open>deployProject\<close> can end\<close>

lemma run_kept: "keeps m \<Longrightarrow> m h v = (r, v', evs) \<Longrightarrow> v' = v"
  unfolding keeps_def by (metis fst_conv snd_conv)

lemma run_emits: "emits P m \<Longrightarrow> m h v = (r, v', evs) \<Longrightarrow> list_all P evs"
  unfolding emits_def by (metis snd_conv)

lemma prefix_bind:
  assumes "keeps m" and "emits P m" and "io_bind m f h v = (r, v', evs)"
  obtains
    (stop) e where "r = Inl e" "v' = v" "list_all P evs"
  | (go) x e1 e2 where "list_all P e1" "m h v = (Inr x, v, e1)" "f x (h @ e1) v = (r, v', e2)"
      "evs = e1 @ e2"
proof -
  obtain r1 v1 e1 where m: "m h v = (r1, v1, e1)" by (cases "m h v") auto
  have v1: "v1 = v" using assms(1) m by (rule run_kept)
  have p: "list_all P e1" using assms(2) m by (rule run_emits)
  show thesis
  proof (cases r1)
    case (Inl e)
    with m v1 p assms(3) show thesis by (intro stop [of e]) (simp_all add: io_bind_def)
  next
    case (Inr x)
    obtain r2 v2 e2 where f: "f x (h @ e1) v = (r2, v2, e2)" by (cases "f x (h @ e1) v") auto
    with m v1 Inr assms(3) have "r = r2 \<and> v' = v2 \<and> evs = e1 @ e2" by (simp add: io_bind_def)
    with m v1 p Inr f show thesis by (intro go [of e1 x e2]) simp_all
  qed
qed

lemma prefix_seq:
  assumes "keeps m" and "emits P m" and "io_seq m n h v = (r, v', evs)"
  obtains
    (stop) e where "r = Inl e" "v' = v" "list_all P evs"
  | (go) e1 e2 where "list_all P e1" "n (h @ e1) v = (r, v', e2)" "evs = e1 @ e2"
  using assms unfolding io_seq_def
  by (cases rule: prefix_bind) auto

lemma keeps_validateEnvironment: "keeps (validateEnvironment w env)"
  unfolding validateEnvironment_def by (intro keeps_rules keeps_execSync)

lemma keeps_loadConfig: "keeps (loadConfig w env)"
  unfolding loadConfig_def by (intro keeps_rules)

lemma keeps_getCurrentBranch: "keeps (getCurrentBranch w)"
  unfolding getCurrentBranch_def by (intro keeps_rules keeps_execSync)

lemma keeps_getGitStatus: "keeps (getGitStatus w)"
  unfolding getGitStatus_def by (intro keeps_rules keeps_execSync)

lemma keeps_checkGitStatus: "keeps (checkGitStatus w branch force)"
  unfolding checkGitStatus_def
  by (intro keeps_rules keeps_execSync keeps_getCurrentBranch keeps_getGitStatus)

lemma keeps_confirmDeployment: "keeps (confirmDeployment w)"
  unfolding confirmDeployment_def by (intro keeps_rules)

lemma local_validateEnvironment: "emits local_event (validateEnvironment w env)"
  unfolding validateEnvironment_def by (intro emits_all) (simp_all add: local_event_def)

lemma local_loadConfig: "emits local_event (loadConfig w env)"
  unfolding loadConfig_def by (intro emits_all) (simp_all add: local_event_def)

lemma local_checkGitStatus: "emits local_event (checkGitStatus w branch force)"
  unfolding checkGitStatus_def getCurrentBranch_def getGitStatus_def
  by (intro emits_all) (simp_all add: local_event_def)

lemma local_confirmDeployment: "emits local_event (confirmDeployment w)"
  unfolding confirmDeployment_def by (intro emits_all) (simp_all add: local_event_def)

lemma simulateDeployment_apply: "simulateDeployment h v = (Inr (), v, simulation_events)"
  by (simp add: simulateDeployment_def simulation_events_def steps_def io_seq_apply emit_def
      io_return_def)

lemma deployProject_cases:
  assumes run: "deployProject w env branch force dryRun h v = (r, v', evs)"
  obtains
    (stopped) e where "r = Inl e" "v' = v" "list_all local_event evs"
  | (simulated) e0 where "dryRun" "r = Inr ()" "v' = v" "list_all local_event e0"
      "evs = e0 @ Console Msg_dry_run_mode # simulation_events"
  | (failed) e0 cfg e e1 where "\<not> dryRun" "list_all local_event e0"
      "executeDeployment w cfg (h @ e0) v = (Inl e, v', e1)" "r = Inl e" "evs = e0 @ e1"
  | (completed) e0 cfg e1 where "\<not> dryRun" "list_all local_event e0"
      "executeDeployment w cfg (h @ e0) v = (Inr (), v', e1)" "r = Inr ()"
      "evs = e0 @ e1
             @ [Console (Msg_deploy_done env branch (if truthy (url cfg) then url cfg else None))]"
proof -
  let ?V = "try_catch (io_seq (validateEnvironment w env) (emit (Spinner Succeed St_validate)))
              (\<lambda>error. io_seq (emit (Spinner Fail St_validate)) (io_throw error))"
  let ?C = "if \<not> force \<and> \<not> dryRun then confirmDeployment w else io_return ()"
  let ?F = "\<lambda>cfg. if dryRun then io_seq (emit (Console Msg_dry_run_mode)) simulateDeployment
              else io_seq (executeDeployment w cfg)
                     (emit (Console (Msg_deploy_done env branch
                                       (if truthy (url cfg) then url cfg else None))))"
  let ?K = "\<lambda>loaded. case loaded of
              None \<Rightarrow> io_throw (ConfigNotFound env)
            | Some cfg \<Rightarrow> io_seq (checkGitStatus w branch force) (io_seq ?C (?F cfg))"
  have kS: "keeps (emit (Spinner Start St_validate))" by (rule keeps_emit)
  have lS: "emits local_event (emit (Spinner Start St_validate))"
    by (intro emits_emit) (simp add: local_event_def)
  have kV: "keeps ?V" by (intro keeps_rules keeps_validateEnvironment)
  have lV: "emits local_event ?V"
    by (intro emits_all local_validateEnvironment) (simp_all add: local_event_def)
  have kC: "keeps ?C" by (intro keeps_rules keeps_confirmDeployment)
  have lC: "emits local_event ?C" by (intro emits_all local_confirmDeployment)
  from run have "io_seq (emit (Spinner Start St_validate)) (io_seq ?V (io_bind (loadConfig w env) ?K))
                   h v = (r, v', evs)"
    by (simp add: deployProject_def)
  with kS lS show thesis
  proof (cases rule: prefix_seq)
    case (stop e)
    then show thesis by (rule stopped)
  next
    case a: (go ea ra)
    from kV lV a(2) show thesis
    proof (cases rule: prefix_seq)
      case (stop e)
      with a show thesis by (intro stopped [of e]) simp_all
    next
      case b: (go eb rb)
      from keeps_loadConfig local_loadConfig b(2) show thesis
      proof (cases rule: prefix_bind)
        case (stop e)
        with a b show thesis by (intro stopped [of e]) simp_all
      next
        case c: (go loaded ec rc)
        show thesis
        proof (cases loaded)
          case None
          with c(3) have "r = Inl (ConfigNotFound env) \<and> v' = v \<and> rc = []"
            by (simp add: io_throw_def)
          with a b c show thesis by (intro stopped [of "ConfigNotFound env"]) simp_all
        next
          case (Some cfg)
          with c(3) have g: "io_seq (checkGitStatus w branch force) (io_seq ?C (?F cfg))
                               (((h @ ea) @ eb) @ ec) v = (r, v', rc)"
            by simp
          from keeps_checkGitStatus local_checkGitStatus g show thesis
          proof (cases rule: prefix_seq)
            case (stop e)
            with a b c show thesis by (intro stopped [of e]) simp_all
          next
            case d: (go ed rd)
            from kC lC d(2) show thesis
            proof (cases rule: prefix_seq)
              case (stop e)
              with a b c d show thesis by (intro stopped [of e]) simp_all
            next
              case f: (go ef rf)
              let ?e0 = "ea @ eb @ ec @ ed @ ef"
              have l0: "list_all local_event ?e0"
                using a(1) b(1) c(1) d(1) f(1) by simp
              have ev: "evs = ?e0 @ rf"
                using a(3) b(3) c(4) d(3) f(3) by simp
              have h0: "((((h @ ea) @ eb) @ ec) @ ed) @ ef = h @ ?e0" by simp
              show thesis
              proof (cases dryRun)
                case True
                with f(2) h0 have "r = Inr () \<and> v' = v
                    \<and> rf = Console Msg_dry_run_mode # simulation_events"
                  by (simp add: io_seq_apply emit_def simulateDeployment_apply)
                with True l0 ev show thesis by (intro simulated [of ?e0]) simp_all
              next
                case False
                obtain r1 v1 e1 where x: "executeDeployment w cfg (h @ ?e0) v = (r1, v1, e1)"
                  by (cases "executeDeployment w cfg (h @ ?e0) v") auto
                show thesis
                proof (cases r1)
                  case (Inl e)
                  with False f(2) h0 x have "r = Inl e \<and> v' = v1 \<and> rf = e1"
                    by (simp add: io_seq_apply)
                  with False l0 ev x Inl show thesis by (intro failed [of ?e0 cfg e e1]) simp_all
                next
                  case (Inr u)
                  with False f(2) h0 x have "r = Inr () \<and> v' = v1
                      \<and> rf = e1 @ [Console (Msg_deploy_done env branch
                                              (if truthy (url cfg) then url cfg else None))]"
                    by (simp add: io_seq_apply emit_def)
                  with False l0 ev x Inr show thesis
                    by (intro completed [of ?e0 cfg e1]) simp_all
                qed
              qed
            qed
          qed
        qed
      qed
    qed
  qed
qed

section \<open>Validation of the environment name\<close>

lemma loadConfig_reads_store: "FsPathExists \<in> set (events (loadConfig w env h v))"
  by (simp add: loadConfig_def io_bind_def perform_def io_throw_def split: prod.splits sum.splits)

text \<open>
  C9. For an environment name outside \<open>development\<close>, \<open>staging\<close>, \<open>production\<close>,
  \<open>deployProject\<close> throws the invalid-environment error in the validation stage; the
  only events are the start and the failure report of that stage. The profile store is
  not consulted (every run of \<open>loadConfig\<close> begins by asking whether its file exists),
  nor anything else.
\<close>

theorem invalid_environment_rejected:
  assumes "env \<notin> {''development'', ''staging'', ''production''}"
  shows "deployProject w env branch force dryRun h v
           = (Inl (InvalidEnvironment env), v, [Spinner Start St_validate, Spinner Fail St_validate])
       \<and> FsPathExists \<notin> set (events (deployProject w env branch force dryRun h v))
       \<and> FsPathExists \<in> set (events (loadConfig w env h v))"
proof -
  from assms have "env \<notin> set validEnvs" by (simp add: validEnvs_def)
  then have "deployProject w env branch force dryRun h v
           = (Inl (InvalidEnvironment env), v, [Spinner Start St_validate, Spinner Fail St_validate])"
    by (simp add: deployProject_def validateEnvironment_def io_seq_apply try_catch_def emit_def
        io_throw_def)
  then show ?thesis by (simp add: loadConfig_reads_store)
qed

theorem invalid_environment_rejected_witness:
  "''prod'' \<notin> {''development'', ''staging'', ''production''}
   \<and> deployProject world_ok ''prod'' ''main'' False False [] None
       = (Inl (InvalidEnvironment ''prod''), None, [Spinner Start St_validate, Spinner Fail St_validate])
   \<and> FsPathExists \<notin> set (events (deployProject world_ok ''prod'' ''main'' False False [] None))
   \<and> FsPathExists \<in> set (events (loadConfig world_ok ''prod'' [] None))"
proof -
  have "''prod'' \<notin> {''development'', ''staging'', ''production''}" by simp
  from this invalid_environment_rejected [OF this, of world_ok "''main''" False False "[]" None]
  show ?thesis by blast
qed

section \<open>Dry run\<close>

lemma local_not_session: "list_all local_event xs \<Longrightarrow> \<not> list_ex session_event xs"
  by (induction xs) (auto simp: local_event_def session_event_def split: event.splits)

lemma simulation_events_eq:
  "simulation_events =
     [Simulated Start St_build, Sleep 1000, Simulated Succeed St_build,
      Simulated Start St_connect, Sleep 1000, Simulated Succeed St_connect,
      Simulated Start St_backup, Sleep 1000, Simulated Succeed St_backup,
      Simulated Start St_upload, Sleep 1000, Simulated Succeed St_upload,
      Simulated Start St_install, Sleep 1000, Simulated Succeed St_install,
      Simulated Start St_restart, Sleep 1000, Simulated Succeed St_restart,
      Simulated Start St_verify, Sleep 1000, Simulated Succeed St_verify,
      Console Msg_simulation_done]"
  by (simp add: simulation_events_def steps_def)

text \<open>
  C2. With \<open>dryRun\<close> set, no run of \<open>deployProject\<close> contains a session event: no
  session is constructed or connected, and neither \<open>exec\<close> nor an upload is invoked; the
  \<open>ssh\<close> variable is untouched. \<open>simulateDeployment\<close> always returns normally, and
  what it does is to report start and success of the seven steps build, connect,
  backup, upload, install, restart, verify, in this order. A dry run either stops with an
  error in the local stages before the rehearsal (validation, profile lookup, git check),
  or returns normally with the rehearsal as the end of its trace.
\<close>

theorem dry_run_never_touches_session:
  assumes run: "deployProject w env branch force True h v = (r, v', evs)"
  shows "\<not> list_ex session_event evs
       \<and> v' = v
       \<and> simulateDeployment h v = (Inr (), v, simulation_events)
       \<and> [st. Simulated Succeed st \<leftarrow> simulation_events]
           = [St_build, St_connect, St_backup, St_upload, St_install, St_restart, St_verify]
       \<and> ((\<exists>e. r = Inl e \<and> list_all local_event evs)
          \<or> (r = Inr () \<and> (\<exists>e0. list_all local_event e0
                \<and> evs = e0 @ Console Msg_dry_run_mode # simulation_events)))"
proof -
  have sim: "\<not> list_ex session_event (Console Msg_dry_run_mode # simulation_events)"
    by (simp add: simulation_events_eq session_event_def)
  have steps: "[st. Simulated Succeed st \<leftarrow> simulation_events]
           = [St_build, St_connect, St_backup, St_upload, St_install, St_restart, St_verify]"
    by (simp add: simulation_events_eq)
  from run have "\<not> list_ex session_event evs \<and> v' = v
       \<and> ((\<exists>e. r = Inl e \<and> list_all local_event evs)
          \<or> (r = Inr () \<and> (\<exists>e0. list_all local_event e0
                \<and> evs = e0 @ Console Msg_dry_run_mode # simulation_events)))"
  proof (cases rule: deployProject_cases)
    case (stopped e)
    then show ?thesis using local_not_session [of evs] by simp
  next
    case (simulated e0)
    have "\<not> list_ex session_event e0" using simulated(4) by (rule local_not_session)
    with sim simulated have "\<not> list_ex session_event evs" by (auto simp: list_ex_iff)
    with simulated show ?thesis by blast
  next
    case (failed e0 cfg e e1)
    then show ?thesis by simp
  next
    case (completed e0 cfg e1)
    then show ?thesis by simp
  qed
  with steps show ?thesis by (simp add: simulateDeployment_apply)
qed

theorem dry_run_never_touches_session_witness:
  "result (deployProject world_ok ''staging'' ''main'' False True [] None) = Inr ()
   \<and> \<not> list_ex session_event (events (deployProject world_ok ''staging'' ''main'' False True [] None))
   \<and> session (deployProject world_ok ''staging'' ''main'' False True [] None) = None
   \<and> (\<exists>e0. list_all local_event e0
        \<and> events (deployProject world_ok ''staging'' ''main'' False True [] None)
            = e0 @ Console Msg_dry_run_mode # simulation_events)"
proof -
  let ?run = "deployProject world_ok ''staging'' ''main'' False True [] None"
  have r: "result ?run = Inr ()"
    by code_simp
  have "?run = (result ?run, session ?run, events ?run)"
    by simp
  from dry_run_never_touches_session [OF this] r show ?thesis
    by auto
qed

section \<open>Verification warns, installation fails\<close>

subsection \<open>Rules for \<open>total\<close>\<close>

lemma total_emit: "total (emit e)"
  by (simp add: total_def emit_def)

lemma total_return: "total (io_return x)"
  by (simp add: total_def io_return_def)

lemma total_bind:
  assumes "total m" and "\<And>x. total (f x)"
  shows "total (io_bind m f)"
  unfolding total_def
proof (intro allI)
  fix h v
  obtain r v' evs where m: "m h v = (r, v', evs)" by (cases "m h v") auto
  from assms(1) m obtain x where r: "r = Inr x" unfolding total_def by (metis fst_conv)
  obtain r2 v2 evs2 where f: "f x (h @ evs) v' = (r2, v2, evs2)" by (cases "f x (h @ evs) v'") auto
  from assms(2) f obtain y where "r2 = Inr y" unfolding total_def by (metis fst_conv)
  with m r f show "\<exists>y. result (io_bind m f h v) = Inr y" by (simp add: io_bind_def)
qed

lemma total_seq: "total m \<Longrightarrow> total n \<Longrightarrow> total (io_seq m n)"
  by (simp add: io_seq_def total_bind)

lemma total_try_catch:
  assumes "\<And>e. total (handler e)"
  shows "total (try_catch m handler)"
  unfolding total_def
proof (intro allI)
  fix h v
  obtain r v' evs where m: "m h v = (r, v', evs)" by (cases "m h v") auto
  show "\<exists>x. result (try_catch m handler h v) = Inr x"
  proof (cases r)
    case (Inr x)
    with m show ?thesis by (simp add: try_catch_def)
  next
    case (Inl e)
    obtain r2 v2 evs2 where f: "handler e (h @ evs) v' = (r2, v2, evs2)"
      by (cases "handler e (h @ evs) v'") auto
    from assms f obtain y where "r2 = Inr y" unfolding total_def by (metis fst_conv)
    with m Inl f show ?thesis by (simp add: try_catch_def)
  qed
qed

lemma total_verifyDeployment: "total (verifyDeployment w cfg)"
  unfolding verifyDeployment_def by (intro total_seq total_emit total_try_catch)

lemma verifyDeployment_returns: "result (verifyDeployment w cfg h v) = Inr ()"
  using total_verifyDeployment [of w cfg] unfolding total_def by simp

subsection \<open>A stage that has started decides the run\<close>

lemma reach_seq:
  assumes m: "emits (\<lambda>e. e \<noteq> x) m"
    and n: "\<And>h v r v' evs. n h v = (r, v', evs) \<Longrightarrow> x \<in> set evs \<Longrightarrow> r = Inr y"
    and run: "io_seq m n h v = (r, v', evs)" and x: "x \<in> set evs"
  shows "r = Inr y"
proof -
  obtain r1 v1 e1 where m1: "m h v = (r1, v1, e1)" by (cases "m h v") auto
  have "list_all (\<lambda>e. e \<noteq> x) e1" using m m1 by (rule run_emits)
  then have nx: "x \<notin> set e1" by (auto simp: list_all_iff)
  show ?thesis
  proof (cases r1)
    case (Inl e)
    with m1 run have "evs = e1" by (simp add: io_seq_apply)
    with nx x show ?thesis by simp
  next
    case (Inr u)
    obtain r2 v2 e2 where n2: "n (h @ e1) v1 = (r2, v2, e2)" by (cases "n (h @ e1) v1") auto
    with m1 Inr run have "r = r2" "evs = e1 @ e2" by (simp_all add: io_seq_apply)
    with nx x n [OF n2] show ?thesis by simp
  qed
qed

lemma before_verify:
  "emits (\<lambda>e. e \<noteq> Spinner s St_verify) (buildProject w cfg)"
  "emits (\<lambda>e. e \<noteq> Spinner s St_verify) (backupCurrentVersion w cfg)"
  "emits (\<lambda>e. e \<noteq> Spinner s St_verify) (uploadFiles_deploy w cfg)"
  "emits (\<lambda>e. e \<noteq> Spinner s St_verify) (installAndBuild w cfg)"
  "emits (\<lambda>e. e \<noteq> Spinner s St_verify) (restartService w cfg)"
  unfolding buildProject_def backupCurrentVersion_def uploadFiles_deploy_def installAndBuild_def
    restartService_def
  by (intro emits_all; simp)+

lemma after_connect_verify:
  assumes "after_connect w cfg h v = (r, v', evs)" and "Spinner s St_verify \<in> set evs"
  shows "r = Inr ()"
proof -
  have v: "r = Inr ()" if "verifyDeployment w cfg h v = (r, v', evs)" for h v r v' evs
    using verifyDeployment_returns [of w cfg h v] that by simp
  have 4: "r = Inr ()"
    if "io_seq (restartService w cfg) (verifyDeployment w cfg) h v = (r, v', evs)"
      "Spinner s St_verify \<in> set evs" for h v r v' evs
    using before_verify(5) v that(1,2) by (rule reach_seq)
  have 3: "r = Inr ()"
    if "io_seq (installAndBuild w cfg) (io_seq (restartService w cfg) (verifyDeployment w cfg)) h v
          = (r, v', evs)"
      "Spinner s St_verify \<in> set evs" for h v r v' evs
    using before_verify(4) 4 that(1,2) by (rule reach_seq)
  have 2: "r = Inr ()"
    if "after_backup w cfg h v = (r, v', evs)" "Spinner s St_verify \<in> set evs"
    for h v r v' evs
    using before_verify(3) 3 that(1,2) unfolding after_backup_def by (rule reach_seq)
  show ?thesis
    using before_verify(2) 2 assms unfolding after_connect_def by (rule reach_seq)
qed

lemma executeDeployment_verify:
  assumes run: "executeDeployment w cfg h v = (r, v', evs)"
    and x: "Spinner s St_verify \<in> set evs"
  shows "r = Inr ()"
  using run
proof (cases rule: executeDeployment_cases)
  case (build_failed e)
  have "list_all (\<lambda>e. e \<noteq> Spinner s St_verify) evs"
    using before_verify(1) build_failed(1) by (rule run_emits)
  with x show ?thesis by (auto simp: list_all_iff)
next
  case (connect_failed e1 m)
  have "list_all (\<lambda>e. e \<noteq> Spinner s St_verify) e1"
    using before_verify(1) connect_failed(1) by (rule run_emits)
  with x connect_failed(2) show ?thesis by (auto simp: list_all_iff connect_events_def)
next
  case (connected e1 e2)
  have "list_all (\<lambda>e. e \<noteq> Spinner s St_verify) e1"
    using before_verify(1) connected(1) by (rule run_emits)
  with x connected(3) have "Spinner s St_verify \<in> set e2"
    by (auto simp: list_all_iff connect_events_def)
  with connected(2) show ?thesis by (rule after_connect_verify)
qed

subsection \<open>The error of the install stage is the error of the run\<close>

lemma emit_seq_apply:
  "io_seq (emit e) m h v = (case m (h @ [e]) v of (r, v', evs) \<Rightarrow> (r, v', e # evs))"
  by (simp add: io_seq_apply emit_def)

lemma install_starts:
  assumes "installAndBuild w cfg h v = (r, v', ei)"
  obtains ei' where "ei = Spinner Start St_install # ei'" "Spinner Start St_install \<notin> set ei'"
proof -
  let ?body = "try_catch
          (io_seq (exec w (''cd '' @ deployPath cfg))
          (io_seq (io_when (truthy (installCommand cfg))
                     (exec w (''cd '' @ deployPath cfg @ '' && '' @ str (installCommand cfg))))
          (io_seq (io_when (truthy (buildCommandRemote cfg))
                     (exec w (''cd '' @ deployPath cfg @ '' && '' @ str (buildCommandRemote cfg))))
             (emit (Spinner Succeed St_install)))))
          (\<lambda>error. io_seq (emit (Spinner Fail St_install)) (io_throw error))"
  obtain r2 v2 e2 where b: "?body (h @ [Spinner Start St_install]) v = (r2, v2, e2)"
    by (cases "?body (h @ [Spinner Start St_install]) v") auto
  have "emits (\<lambda>e. e \<noteq> Spinner Start St_install) ?body"
    by (intro emits_all; simp)
  then have "list_all (\<lambda>e. e \<noteq> Spinner Start St_install) e2" using b by (rule run_emits)
  then have "Spinner Start St_install \<notin> set e2" by (auto simp: list_all_iff)
  moreover from assms b have "ei = Spinner Start St_install # e2"
    by (simp add: installAndBuild_def emit_seq_apply)
  ultimately show thesis by (intro that [of e2]) simp_all
qed

lemma around_install:
  "emits (\<lambda>e. e \<noteq> Spinner Start St_install) (buildProject w cfg)"
  "emits (\<lambda>e. e \<noteq> Spinner Start St_install) (backupCurrentVersion w cfg)"
  "emits (\<lambda>e. e \<noteq> Spinner Start St_install) (uploadFiles_deploy w cfg)"
  "emits (\<lambda>e. e \<noteq> Spinner Start St_install)
     (io_seq (restartService w cfg) (verifyDeployment w cfg))"
  unfolding buildProject_def backupCurrentVersion_def uploadFiles_deploy_def restartService_def
    verifyDeployment_def
  by (intro emits_all; simp)+

lemma all_differ_notin: "list_all (\<lambda>e. e \<noteq> x) xs \<Longrightarrow> x \<notin> set xs"
  by (auto simp: list_all_iff)

lemma executeDeployment_install:
  assumes run: "executeDeployment w cfg h v = (r, v', evs)"
    and pos: "evs = pre @ Spinner Start St_install # post"
    and inst: "result (installAndBuild w cfg (h @ pre) (Some \<lparr>config = cfg, connected = True\<rparr>))
                 = Inl e"
  shows "r = Inl e"
  using run
proof (cases rule: executeDeployment_cases)
  case (build_failed e')
  have "Spinner Start St_install \<notin> set evs"
    using around_install(1) build_failed(1) by (intro all_differ_notin) (rule run_emits)
  with pos show ?thesis by simp
next
  case (connect_failed e1 m)
  have "Spinner Start St_install \<notin> set e1"
    using around_install(1) connect_failed(1) by (intro all_differ_notin) (rule run_emits)
  with connect_failed(2) have "Spinner Start St_install \<notin> set evs"
    by (simp add: connect_events_def)
  with pos show ?thesis by simp
next
  case (connected e1 e2)
  let ?x = "Spinner Start St_install"
  let ?c1 = "\<lparr>config = cfg, connected = True\<rparr>"
  let ?h2 = "h @ e1 @ connect_events cfg Succeed"
  let ?tail = "[Call M_disconnect, NodeSSH Dispose]"
  have n1: "?x \<notin> set e1"
    using around_install(1) connected(1) by (intro all_differ_notin) (rule run_emits)
  have nce: "?x \<notin> set (connect_events cfg Succeed)" by (simp add: connect_events_def)
  from connected(2)
  have a: "io_seq (backupCurrentVersion w cfg)
             (io_seq (uploadFiles_deploy w cfg)
               (io_seq (installAndBuild w cfg)
                  (io_seq (restartService w cfg) (verifyDeployment w cfg)))) ?h2 (Some ?c1)
           = (r, Some ?c1, e2)"
    by (simp add: after_connect_def after_backup_def)
  from keeps_backupCurrentVersion around_install(2) a show ?thesis
  proof (cases rule: prefix_seq)
    case (stop e')
    with n1 nce connected(3) have "?x \<notin> set evs" by (simp add: all_differ_notin)
    with pos show ?thesis by simp
  next
    case b: (go eb rb)
    have nb: "?x \<notin> set eb" using b(1) by (rule all_differ_notin)
    from keeps_uploadFiles_deploy around_install(3) b(2) show ?thesis
    proof (cases rule: prefix_seq)
      case (stop e')
      with n1 nce nb b(3) connected(3) have "?x \<notin> set evs" by (simp add: all_differ_notin)
      with pos show ?thesis by simp
    next
      case u: (go eu ru)
      have nu: "?x \<notin> set eu" using u(1) by (rule all_differ_notin)
      let ?h3 = "(?h2 @ eb) @ eu"
      let ?A = "e1 @ connect_events cfg Succeed @ eb @ eu"
      have h3: "?h3 = h @ ?A" by simp
      have nA: "?x \<notin> set ?A" using n1 nce nb nu by simp
      obtain ri vi ei where i: "installAndBuild w cfg ?h3 (Some ?c1) = (ri, vi, ei)"
        by (cases "installAndBuild w cfg ?h3 (Some ?c1)") auto
      from i obtain ei' where ei: "ei = ?x # ei'" "?x \<notin> set ei'" by (rule install_starts)
      have pre: "pre = ?A" if "evs = ?A @ ?x # B" "?x \<notin> set B" for B
        using append_Cons_eq_iff [of ?x ?A B pre post] nA that pos by auto
      show ?thesis
      proof (cases ri)
        case (Inl e')
        with i u(2) have r: "r = Inl e'" "ru = ei" by (simp_all add: io_seq_apply)
        with ei b(3) u(3) connected(3) have "evs = ?A @ ?x # (ei' @ ?tail)" by simp
        moreover have "?x \<notin> set (ei' @ ?tail)" using ei(2) by simp
        ultimately have "pre = ?A" by (rule pre)
        with inst h3 i Inl have "e' = e" by simp
        with r show ?thesis by simp
      next
        case (Inr x)
        obtain r4 v4 e4 where t:
          "io_seq (restartService w cfg) (verifyDeployment w cfg) (?h3 @ ei) vi = (r4, v4, e4)"
          by (cases "io_seq (restartService w cfg) (verifyDeployment w cfg) (?h3 @ ei) vi") auto
        have n4: "?x \<notin> set e4"
          using around_install(4) t by (intro all_differ_notin) (rule run_emits)
        from i Inr t u(2) have "ru = ei @ e4" by (simp add: io_seq_apply)
        with ei b(3) u(3) connected(3) have "evs = ?A @ ?x # (ei' @ e4 @ ?tail)" by simp
        moreover have "?x \<notin> set (ei' @ e4 @ ?tail)" using ei(2) n4 by simp
        ultimately have "pre = ?A" by (rule pre)
        with inst h3 i Inr show ?thesis by simp
      qed
    qed
  qed
qed

subsection \<open>The install and verify stages on a connected session\<close>

lemma installAndBuild_apply:
  assumes "connected c"
  shows "installAndBuild w cfg h (Some c) =
     (case commands_outcome w (deployPath (config c)) (h @ [Spinner Start St_install])
             (install_commands cfg) of
        (None, evs) \<Rightarrow>
          (Inr (), Some c, Spinner Start St_install # evs @ [Spinner Succeed St_install])
      | (Some e, evs) \<Rightarrow>
          (Inl e, Some c, Spinner Start St_install # evs @ [Spinner Fail St_install]))"
  using assms
  by (simp add: installAndBuild_def install_commands_def emit_seq_apply io_seq_apply io_when_def
      try_catch_def exec_apply emit_def io_throw_def io_return_def)

lemma verifyDeployment_warns:
  assumes "connected c" and "truthy (verifyCommand cfg)"
    and "\<not> exec_ok (execCommand_reply w
                  (h @ [Spinner Start St_verify, Call (M_exec (str (verifyCommand cfg)))])
                  (str (verifyCommand cfg)))"
  shows "verifyDeployment w cfg h (Some c) =
     (Inr (), Some c,
      [Spinner Start St_verify, Call (M_exec (str (verifyCommand cfg))),
       NodeSSH (ExecCommand (str (verifyCommand cfg)) (deployPath (config c))),
       Spinner Warn St_verify,
       Console (Msg_verify_error (exec_error (execCommand_reply w
                  (h @ [Spinner Start St_verify, Call (M_exec (str (verifyCommand cfg)))])
                  (str (verifyCommand cfg)))))])"
  using assms
  by (simp add: verifyDeployment_def emit_seq_apply io_seq_apply io_bind_def try_catch_def
      exec_apply emit_def)

subsection \<open>The whole run\<close>

lemma executeDeployment_profile:
  assumes run: "executeDeployment w cfg0 h v = (r, v', evs)"
    and new: "Call (M_new cfg) \<in> set evs"
  shows "cfg = cfg0"
  using run
proof (cases rule: executeDeployment_cases)
  case (build_failed e)
  have "list_all (\<lambda>e. \<not> lifecycle e) evs"
    using quiet_buildProject build_failed(1) by (rule run_emits)
  then have "Call (M_new cfg) \<notin> set evs"
    by (rule quiet_notin) (simp add: lifecycle_def)
  with new show ?thesis by simp
next
  case (connect_failed e1 m)
  have "list_all (\<lambda>e. \<not> lifecycle e) e1"
    using quiet_buildProject connect_failed(1) by (rule run_emits)
  then have "Call (M_new cfg) \<notin> set e1"
    by (rule quiet_notin) (simp add: lifecycle_def)
  with new connect_failed(2) show ?thesis by (simp add: connect_events_def)
next
  case (connected e1 e2)
  have "list_all (\<lambda>e. \<not> lifecycle e) e1"
    using quiet_buildProject connected(1) by (rule run_emits)
  then have "Call (M_new cfg) \<notin> set e1"
    by (rule quiet_notin) (simp add: lifecycle_def)
  moreover have "list_all (\<lambda>e. \<not> lifecycle e) e2"
    using quiet_after_connect connected(2) by (rule run_emits)
  then have "Call (M_new cfg) \<notin> set e2"
    by (rule quiet_notin) (simp add: lifecycle_def)
  ultimately show ?thesis using new connected(3) by (simp add: connect_events_def)
qed

lemma local_notin: "list_all local_event xs \<Longrightarrow> \<not> local_event e \<Longrightarrow> e \<notin> set xs"
  by (auto simp: list_all_iff)

lemma snoc_split:
  assumes "xs @ [c] = q @ x # post" and "x \<noteq> c"
  obtains post' where "xs = q @ x # post'"
proof (cases post rule: rev_cases)
  case Nil
  with assms show thesis by simp
next
  case (snoc post' y)
  with assms(1) have "xs @ [c] = (q @ x # post') @ [y]" by simp
  then have "xs = q @ x # post'" by (simp only: append1_eq_conv)
  then show thesis by (rule that)
qed

lemma deployProject_verify:
  assumes run: "deployProject w env branch force dryRun h v = (r, v', evs)"
    and that: "Spinner s St_verify \<in> set evs"
  shows "r = Inr ()"
  using run
proof (cases rule: deployProject_cases)
  case (stopped e)
  with that show ?thesis using local_notin [of evs "Spinner s St_verify"]
    by (simp add: local_event_def)
next
  case (simulated e0)
  with that show ?thesis using local_notin [of e0 "Spinner s St_verify"]
    by (simp add: local_event_def simulation_events_eq)
next
  case (failed e0 cfg e e1)
  with that have "Spinner s St_verify \<in> set e1"
    using local_notin [of e0 "Spinner s St_verify"] by (simp add: local_event_def)
  with failed(3) have "Inl e = Inr ()" by (rule executeDeployment_verify)
  then show ?thesis by simp
next
  case (completed e0 cfg e1)
  then show ?thesis by simp
qed

text \<open>
  C4. In every run of \<open>deployProject\<close>: once the verify stage has reported anything
  (its start, or the warning that verification failed), the run returns normally; and
  when the install stage, run at the point of the trace where it starts, throws an
  error, the run throws that same error. The verify stage itself never throws: when
  its command fails it reports a warning and prints the error of the command. The
  install stage throws the error of the first of its remote commands that fails (a
  rejected call or an exit status other than 0).
\<close>

theorem verify_warns_install_fails:
  assumes run: "deployProject w env branch force dryRun h v = (r, v', evs)"
  shows "(\<forall>s. Spinner s St_verify \<in> set evs \<longrightarrow> r = Inr ())
       \<and> (\<forall>pre post cfg e.
            evs = pre @ Spinner Start St_install # post \<and> Call (M_new cfg) \<in> set pre
            \<and> result (installAndBuild w cfg (h @ pre) (Some \<lparr>config = cfg, connected = True\<rparr>))
                = Inl e
            \<longrightarrow> r = Inl e)
       \<and> result (verifyDeployment w cfg0 h0 v0) = Inr ()
       \<and> (connected c \<and> truthy (verifyCommand cfg0)
            \<and> \<not> exec_ok (execCommand_reply w
                    (h0 @ [Spinner Start St_verify, Call (M_exec (str (verifyCommand cfg0)))])
                    (str (verifyCommand cfg0)))
          \<longrightarrow> events (verifyDeployment w cfg0 h0 (Some c)) =
                [Spinner Start St_verify, Call (M_exec (str (verifyCommand cfg0))),
                 NodeSSH (ExecCommand (str (verifyCommand cfg0)) (deployPath (config c))),
                 Spinner Warn St_verify,
                 Console (Msg_verify_error (exec_error (execCommand_reply w
                    (h0 @ [Spinner Start St_verify, Call (M_exec (str (verifyCommand cfg0)))])
                    (str (verifyCommand cfg0)))))])
       \<and> (connected c
            \<and> fst (commands_outcome w (deployPath (config c)) (h0 @ [Spinner Start St_install])
                     (install_commands cfg0)) = Some e0
          \<longrightarrow> result (installAndBuild w cfg0 h0 (Some c)) = Inl e0)"
proof -
  have verify: "r = Inr ()" if "Spinner s St_verify \<in> set evs" for s
    using run that by (rule deployProject_verify)
  have install: "r = Inl e"
    if pos: "evs = pre @ Spinner Start St_install # post" and new: "Call (M_new cfg) \<in> set pre"
      and inst: "result (installAndBuild w cfg (h @ pre) (Some \<lparr>config = cfg, connected = True\<rparr>))
                   = Inl e"
    for pre post cfg e
    using run
  proof (cases rule: deployProject_cases)
    case (stopped e')
    from pos have "Spinner Start St_install \<in> set evs" by simp
    with stopped(3) show ?thesis using local_notin [of evs "Spinner Start St_install"]
      by (simp add: local_event_def)
  next
    case (simulated e0)
    from pos have "Spinner Start St_install \<in> set evs" by simp
    with simulated(5) have "Spinner Start St_install \<in> set e0"
      by (simp add: simulation_events_eq)
    with simulated(4) show ?thesis using local_notin [of e0 "Spinner Start St_install"]
      by (simp add: local_event_def)
  next
    case (failed e0 cfg1 e' e1)
    have "Spinner Start St_install \<notin> set e0"
      using failed(2) by (rule local_notin) (simp add: local_event_def)
    with failed(5) pos obtain q where q: "pre = e0 @ q"
      using prefix_before_first [of e0 e1 pre "Spinner Start St_install" post] by auto
    with failed(5) pos have e1: "e1 = q @ Spinner Start St_install # post" by simp
    have "Call (M_new cfg) \<notin> set e0"
      using failed(2) by (rule local_notin) (simp add: local_event_def)
    with new q e1 have "Call (M_new cfg) \<in> set e1" by simp
    with failed(3) have cfg: "cfg = cfg1" by (rule executeDeployment_profile)
    from inst q cfg
    have "result (installAndBuild w cfg1 ((h @ e0) @ q) (Some \<lparr>config = cfg1, connected = True\<rparr>))
            = Inl e"
      by simp
    with failed(3) e1 have "(Inl e' :: error + unit) = Inl e" by (rule executeDeployment_install)
    with failed(4) show ?thesis by simp
  next
    case (completed e0 cfg1 e1)
    let ?c = "Console (Msg_deploy_done env branch (if truthy (url cfg1) then url cfg1 else None))"
    have "Spinner Start St_install \<notin> set e0"
      using completed(2) by (rule local_notin) (simp add: local_event_def)
    with completed(5) pos obtain q where q: "pre = e0 @ q"
      using prefix_before_first [of e0 "e1 @ [?c]" pre "Spinner Start St_install" post] by auto
    with completed(5) pos have "e1 @ [?c] = q @ Spinner Start St_install # post" by simp
    then obtain post' where e1: "e1 = q @ Spinner Start St_install # post'"
      by (rule snoc_split) simp
    have "Call (M_new cfg) \<notin> set e0"
      using completed(2) by (rule local_notin) (simp add: local_event_def)
    with new q e1 have "Call (M_new cfg) \<in> set e1" by simp
    with completed(3) have cfg: "cfg = cfg1" by (rule executeDeployment_profile)
    from inst q cfg
    have "result (installAndBuild w cfg1 ((h @ e0) @ q) (Some \<lparr>config = cfg1, connected = True\<rparr>))
            = Inl e"
      by simp
    with completed(3) e1 have "(Inr () :: error + unit) = Inl e" by (rule executeDeployment_install)
    then show ?thesis by simp
  qed
  have stage: "result (installAndBuild w cfg0 h0 (Some c)) = Inl e0"
    if "connected c"
      "fst (commands_outcome w (deployPath (config c)) (h0 @ [Spinner Start St_install])
              (install_commands cfg0)) = Some e0"
    using that by (auto simp: installAndBuild_apply split: prod.splits)
  from verify have 1: "\<forall>s. Spinner s St_verify \<in> set evs \<longrightarrow> r = Inr ()"
    by blast
  from install have 2: "\<forall>pre post cfg e.
            evs = pre @ Spinner Start St_install # post \<and> Call (M_new cfg) \<in> set pre
            \<and> result (installAndBuild w cfg (h @ pre) (Some \<lparr>config = cfg, connected = True\<rparr>))
                = Inl e
            \<longrightarrow> r = Inl e"
    by blast
  have 3: "connected c \<and> truthy (verifyCommand cfg0)
            \<and> \<not> exec_ok (execCommand_reply w
                    (h0 @ [Spinner Start St_verify, Call (M_exec (str (verifyCommand cfg0)))])
                    (str (verifyCommand cfg0)))
          \<longrightarrow> events (verifyDeployment w cfg0 h0 (Some c)) =
                [Spinner Start St_verify, Call (M_exec (str (verifyCommand cfg0))),
                 NodeSSH (ExecCommand (str (verifyCommand cfg0)) (deployPath (config c))),
                 Spinner Warn St_verify,
                 Console (Msg_verify_error (exec_error (execCommand_reply w
                    (h0 @ [Spinner Start St_verify, Call (M_exec (str (verifyCommand cfg0)))])
                    (str (verifyCommand cfg0)))))]"
    by (simp add: verifyDeployment_warns)
  from stage have 4: "connected c
            \<and> fst (commands_outcome w (deployPath (config c)) (h0 @ [Spinner Start St_install])
                     (install_commands cfg0)) = Some e0
          \<longrightarrow> result (installAndBuild w cfg0 h0 (Some c)) = Inl e0"
    by blast
  show ?thesis
    by (intro conjI 1 2 3 4 verifyDeployment_returns)
qed

theorem verify_warns_install_fails_witness:
  "Spinner Warn St_verify
     \<in> set (events (deployProject (world_cmd_fails ''curl -f http://localhost/'')
                      ''staging'' ''main'' True False [] None))
   \<and> result (deployProject (world_cmd_fails ''curl -f http://localhost/'')
               ''staging'' ''main'' True False [] None) = Inr ()
   \<and> Spinner Fail St_install
     \<in> set (events (deployProject (world_cmd_fails ''cd /srv/app && npm install'')
                      ''staging'' ''main'' True False [] None))
   \<and> result (deployProject (world_cmd_fails ''cd /srv/app && npm install'')
               ''staging'' ''main'' True False [] None)
     = Inl (RemoteExecFailed (CommandFailed ''failed''))"
proof -
  let ?wV = "world_cmd_fails ''curl -f http://localhost/''"
  let ?runV = "deployProject ?wV ''staging'' ''main'' True False [] None"
  let ?wI = "world_cmd_fails ''cd /srv/app && npm install''"
  let ?runI = "deployProject ?wI ''staging'' ''main'' True False [] None"
  let ?x = "Spinner Start St_install"
  let ?pre = "takeWhile (\<lambda>e. e \<noteq> ?x) (events ?runI)"
  let ?post = "tl (dropWhile (\<lambda>e. e \<noteq> ?x) (events ?runI))"
  have warn: "Spinner Warn St_verify \<in> set (events ?runV)"
    by code_simp
  have "?runV = (result ?runV, session ?runV, events ?runV)"
    by simp
  from verify_warns_install_fails [OF this] warn have v: "result ?runV = Inr ()"
    by blast
  have fail: "Spinner Fail St_install \<in> set (events ?runI)"
    by code_simp
  have pos: "events ?runI = ?pre @ ?x # ?post"
    by code_simp
  have new: "Call (M_new profile0) \<in> set ?pre"
    by code_simp
  have inst: "result (installAndBuild ?wI profile0 ([] @ ?pre)
                (Some \<lparr>config = profile0, connected = True\<rparr>))
              = Inl (RemoteExecFailed (CommandFailed ''failed''))"
    by code_simp
  have "?runI = (result ?runI, session ?runI, events ?runI)"
    by simp
  from verify_warns_install_fails [OF this] pos new inst
  have i: "result ?runI = Inl (RemoteExecFailed (CommandFailed ''failed''))"
    by blast
  from warn v fail i show ?thesis
    by blast
qed

section \<open>How the process ends after an action\<close>

subsection \<open>No function of the program calls \<open>process.exit\<close> or reports a failure of the logs command\<close>


















subsection \<open>The session after \<open>deployProject\<close> and after \<open>showLogs\<close>\<close>











subsection \<open>The actions\<close>





section \<open>Empty commands\<close>

text \<open>
  C5, amended. A stage whose command is empty or missing issues no command for it:
  \<open>buildProject\<close> only reports start and success, \<open>restartService\<close> does nothing at
  all, \<open>verifyDeployment\<close> only reports start and success. The install stage always
  issues \<open>cd <deployPath>\<close> first, then \<open>cd <deployPath> && installCommand\<close> and
  \<open>cd <deployPath> && buildCommandRemote\<close>, each only if the command is non-empty, in
  this order, stopping at the first failure; with both commands empty it issues the
  \<open>cd\<close> alone and succeeds exactly when that command succeeds.
\<close>

theorem empty_commands_are_skipped:
  "(\<not> truthy (buildCommand cfg)
      \<longrightarrow> buildProject w cfg h v = (Inr (), v, [Spinner Start St_build, Spinner Succeed St_build]))
   \<and> (\<not> truthy (restartCommand cfg) \<longrightarrow> restartService w cfg h v = (Inr (), v, []))
   \<and> (\<not> truthy (verifyCommand cfg)
      \<longrightarrow> verifyDeployment w cfg h v
          = (Inr (), v, [Spinner Start St_verify, Spinner Succeed St_verify]))
   \<and> (connected c \<longrightarrow>
        installAndBuild w cfg h (Some c) =
          (case commands_outcome w (deployPath (config c)) (h @ [Spinner Start St_install])
                  (install_commands cfg) of
             (None, evs) \<Rightarrow>
               (Inr (), Some c, Spinner Start St_install # evs @ [Spinner Succeed St_install])
           | (Some e, evs) \<Rightarrow>
               (Inl e, Some c, Spinner Start St_install # evs @ [Spinner Fail St_install])))
   \<and> install_commands cfg =
        [''cd '' @ deployPath cfg]
        @ (if truthy (installCommand cfg)
           then [''cd '' @ deployPath cfg @ '' && '' @ str (installCommand cfg)] else [])
        @ (if truthy (buildCommandRemote cfg)
           then [''cd '' @ deployPath cfg @ '' && '' @ str (buildCommandRemote cfg)] else [])
   \<and> (connected c \<and> \<not> truthy (installCommand cfg) \<and> \<not> truthy (buildCommandRemote cfg)
      \<longrightarrow> events (installAndBuild w cfg h (Some c))
            = [Spinner Start St_install, Call (M_exec (''cd '' @ deployPath cfg)),
               NodeSSH (ExecCommand (''cd '' @ deployPath cfg) (deployPath (config c))),
               Spinner (if result (installAndBuild w cfg h (Some c)) = Inr () then Succeed else Fail)
                 St_install]
          \<and> (result (installAndBuild w cfg h (Some c)) = Inr ()
              \<longleftrightarrow> exec_ok (execCommand_reply w
                    (h @ [Spinner Start St_install, Call (M_exec (''cd '' @ deployPath cfg))])
                    (''cd '' @ deployPath cfg))))"
proof -
  have b: "\<not> truthy (buildCommand cfg)
      \<longrightarrow> buildProject w cfg h v = (Inr (), v, [Spinner Start St_build, Spinner Succeed St_build])"
    by (simp add: buildProject_def emit_seq_apply io_seq_apply io_when_def try_catch_def emit_def
        io_return_def)
  have r: "\<not> truthy (restartCommand cfg) \<longrightarrow> restartService w cfg h v = (Inr (), v, [])"
    by (simp add: restartService_def io_return_def)
  have y: "\<not> truthy (verifyCommand cfg)
      \<longrightarrow> verifyDeployment w cfg h v
          = (Inr (), v, [Spinner Start St_verify, Spinner Succeed St_verify])"
    by (simp add: verifyDeployment_def emit_seq_apply io_seq_apply try_catch_def emit_def
        io_return_def)
  have i: "connected c \<longrightarrow>
        installAndBuild w cfg h (Some c) =
          (case commands_outcome w (deployPath (config c)) (h @ [Spinner Start St_install])
                  (install_commands cfg) of
             (None, evs) \<Rightarrow>
               (Inr (), Some c, Spinner Start St_install # evs @ [Spinner Succeed St_install])
           | (Some e, evs) \<Rightarrow>
               (Inl e, Some c, Spinner Start St_install # evs @ [Spinner Fail St_install]))"
    by (simp add: installAndBuild_apply)
  have l: "install_commands cfg =
        [''cd '' @ deployPath cfg]
        @ (if truthy (installCommand cfg)
           then [''cd '' @ deployPath cfg @ '' && '' @ str (installCommand cfg)] else [])
        @ (if truthy (buildCommandRemote cfg)
           then [''cd '' @ deployPath cfg @ '' && '' @ str (buildCommandRemote cfg)] else [])"
    by (rule install_commands_def)
  have e: "connected c \<and> \<not> truthy (installCommand cfg) \<and> \<not> truthy (buildCommandRemote cfg)
      \<longrightarrow> events (installAndBuild w cfg h (Some c))
            = [Spinner Start St_install, Call (M_exec (''cd '' @ deployPath cfg)),
               NodeSSH (ExecCommand (''cd '' @ deployPath cfg) (deployPath (config c))),
               Spinner (if result (installAndBuild w cfg h (Some c)) = Inr () then Succeed else Fail)
                 St_install]
          \<and> (result (installAndBuild w cfg h (Some c)) = Inr ()
              \<longleftrightarrow> exec_ok (execCommand_reply w
                    (h @ [Spinner Start St_install, Call (M_exec (''cd '' @ deployPath cfg))])
                    (''cd '' @ deployPath cfg)))"
    by (simp add: installAndBuild_apply install_commands_def)
  show ?thesis
    by (intro conjI b r y i l e)
qed

theorem empty_commands_are_skipped_witness:
  "\<not> truthy (buildCommand profile_static)
   \<and> buildProject world_ok profile_static [] None
       = (Inr (), None, [Spinner Start St_build, Spinner Succeed St_build])
   \<and> \<not> truthy (restartCommand profile_static)
   \<and> restartService world_ok profile_static [] None = (Inr (), None, [])
   \<and> \<not> truthy (verifyCommand profile_static)
   \<and> verifyDeployment world_ok profile_static [] None
       = (Inr (), None, [Spinner Start St_verify, Spinner Succeed St_verify])
   \<and> \<not> truthy (installCommand profile_static) \<and> \<not> truthy (buildCommandRemote profile_static)
   \<and> result (installAndBuild world_ok profile_static []
                (Some \<lparr>config = profile_static, connected = True\<rparr>)) = Inr ()"
proof -
  have t: "\<not> truthy (buildCommand profile_static)" "\<not> truthy (restartCommand profile_static)"
    "\<not> truthy (verifyCommand profile_static)" "\<not> truthy (installCommand profile_static)"
    "\<not> truthy (buildCommandRemote profile_static)"
    by (simp_all add: profile_static_def profile0_def)
  have c: "connected \<lparr>config = profile_static, connected = True\<rparr>"
    by simp
  have ok: "exec_ok (execCommand_reply world_ok
              ([] @ [Spinner Start St_install, Call (M_exec (''cd '' @ deployPath profile_static))])
              (''cd '' @ deployPath profile_static))"
    by (simp add: world_ok_def exec_ok_def)
  from empty_commands_are_skipped
    [of profile_static world_ok "[]" None "\<lparr>config = profile_static, connected = True\<rparr>"]
    t c ok
  show ?thesis
    by blast
qed

text \<open>
  C5 as stated fails for the install stage: with \<open>installCommand\<close> and
  \<open>buildCommandRemote\<close> both empty the stage still issues \<open>cd /srv/app\<close>, and when
  that command fails the stage fails.
\<close>

theorem install_stage_fails_with_empty_commands:
  "\<not> truthy (installCommand profile_static) \<and> \<not> truthy (buildCommandRemote profile_static)
   \<and> installAndBuild (world_cmd_fails ''cd /srv/app'') profile_static []
       (Some \<lparr>config = profile_static, connected = True\<rparr>)
     = (Inl (RemoteExecFailed (CommandFailed ''failed'')),
        Some \<lparr>config = profile_static, connected = True\<rparr>,
        [Spinner Start St_install, Call (M_exec ''cd /srv/app''),
         NodeSSH (ExecCommand ''cd /srv/app'' ''/srv/app''), Spinner Fail St_install])"
  by code_simp

section \<open>The marker file in the status report\<close>

lemma discarded_assignment:
  "try_catch (case x of None \<Rightarrow> io_throw e1 | Some y \<Rightarrow> assign_const a y) (\<lambda>e. io_return k)
   = io_return k"
  by (cases x) (auto simp: try_catch_def io_throw_def assign_const_def io_return_def fun_eq_iff)

lemma exec_other_oracle: "exec (w\<lparr>parse_deploy_info := p\<rparr>) = exec w"
  unfolding exec_def by (simp cong del: if_weak_cong)

text \<open>
  What \<open>getDeployInfo\<close> returns does not depend on how the content of the marker file
  parses: the parsed object never reaches \<open>deployInfo\<close>.
\<close>

lemma getDeployInfo_ignores_marker:
  "getDeployInfo (w\<lparr>parse_deploy_info := p\<rparr>) cfg = getDeployInfo w cfg"
  unfolding getDeployInfo_def fileExists_def
  by (simp add: exec_other_oracle discarded_assignment cong del: if_weak_cong)

text \<open>
  C6 at a concrete input. The marker file exists and its content parses to a last-deploy
  time and a version; \<open>getDeployInfo\<close> returns an object with neither, and the status
  report prints both as unknown. The only remote commands issued for the marker file are
  \<open>test -f\<close> and \<open>cat\<close>.
\<close>

theorem marker_file_is_ignored:
  "parse_deploy_info world_marker marker_json
     = Some \<lparr>lastDeploy = Some ''2024-05-01'', currentVersion = Some ''1.2.3''\<rparr>
   \<and> getDeployInfo world_marker profile0 [] (Some \<lparr>config = profile0, connected = True\<rparr>)
     = (Inr \<lparr>lastDeploy = None, currentVersion = None\<rparr>,
        Some \<lparr>config = profile0, connected = True\<rparr>,
        [Call (M_exec (test_f ''/srv/app/.deploy-info'')),
         NodeSSH (ExecCommand (test_f ''/srv/app/.deploy-info'') ''/srv/app''),
         Call (M_exec ''cat /srv/app/.deploy-info''),
         NodeSSH (ExecCommand ''cat /srv/app/.deploy-info'' ''/srv/app''),
         Call (M_exec ''stat -c %y /srv/app''),
         NodeSSH (ExecCommand ''stat -c %y /srv/app'' ''/srv/app''),
         Call (M_exec (test_f ''/srv/app/package.json'')),
         NodeSSH (ExecCommand (test_f ''/srv/app/package.json'') ''/srv/app'')])
   \<and> result (showStatus world_marker ''staging'' [] None) = Inr ()
   \<and> Console (Msg_deploy_info ''/srv/app'' None None)
       \<in> set (events (showStatus world_marker ''staging'' [] None))"
  by code_simp

section \<open>Resolution of a profile\<close>














section \<open>Session guard\<close>

text \<open>
  C10. On a connection whose \<open>connected\<close> flag is false, \<open>exec\<close>, \<open>uploadFile\<close>,
  \<open>uploadFiles\<close> and \<open>uploadDirectory\<close> throw the not-connected error at once: the only
  event is the entry into the method (no operation on the remote library), and the
  connection object is left as it was.
\<close>

theorem not_connected_throws:
  assumes "\<not> connected c"
  shows "exec w command h (Some c) = (Inl SSHNotConnected, Some c, [Call (M_exec command)])
       \<and> uploadFile w lp rp h (Some c) = (Inl SSHNotConnected, Some c, [Call (M_uploadFile lp rp)])
       \<and> uploadFiles w fs rd h (Some c) = (Inl SSHNotConnected, Some c, [Call (M_uploadFiles fs rd)])
       \<and> uploadDirectory w ld rd h (Some c)
           = (Inl SSHNotConnected, Some c, [Call (M_uploadDirectory ld rd)])"
  using assms
  by (simp add: exec_def uploadFile_def uploadFiles_def uploadDirectory_def
      method_call_Some io_throw_def)

theorem not_connected_throws_witness:
  "exec world_ok ''ls'' [] (Some \<lparr>config = profile0, connected = False\<rparr>)
     = (Inl SSHNotConnected, Some \<lparr>config = profile0, connected = False\<rparr>, [Call (M_exec ''ls'')])
   \<and> uploadFile world_ok ''a'' ''b'' [] (Some \<lparr>config = profile0, connected = False\<rparr>)
     = (Inl SSHNotConnected, Some \<lparr>config = profile0, connected = False\<rparr>,
        [Call (M_uploadFile ''a'' ''b'')])
   \<and> uploadFiles world_ok None ''d'' [] (Some \<lparr>config = profile0, connected = False\<rparr>)
     = (Inl SSHNotConnected, Some \<lparr>config = profile0, connected = False\<rparr>,
        [Call (M_uploadFiles None ''d'')])
   \<and> uploadDirectory world_ok None ''d'' [] (Some \<lparr>config = profile0, connected = False\<rparr>)
     = (Inl SSHNotConnected, Some \<lparr>config = profile0, connected = False\<rparr>,
        [Call (M_uploadDirectory None ''d'')])"
  using not_connected_throws [of "\<lparr>config = profile0, connected = False\<rparr>" world_ok]
  by simp

end
